theory Spec2Isabelle
  imports Main "HOL-Library.AList" "HOL-Library.Sublist"
begin

section \<open>Signals\<close>

text \<open>
  A worker talks to the main window through Qt signals only.  An emission is a value of
  \<open>signal\<close>.  A camera frame is an array of numbers; its pixels are never inspected here.
  Every operation of a worker returns the new worker together with the list of signals
  it emitted, in the order of emission.  Calls to \<^verbatim>\<open>logger\<close> write to the process log and
  touch neither a field nor a signal of the worker; they are not part of the state.
  Names are those of the source, without a leading underscore (\<^verbatim>\<open>_is_running\<close> is
  \<open>is_running\<close>, \<^verbatim>\<open>_try_import\<close> is \<open>try_import\<close>).
\<close>

type_synonym frame = "nat list"

datatype signal =
    Finished
  | Error string string
  | Status_update string int
  | Frame_ready frame
  | Speech_started string
  | Speech_word_boundary string int int
  | Speech_finished string

section \<open>Module constants\<close>

definition DEFAULT_CAMERA_INDEX :: int where
  "DEFAULT_CAMERA_INDEX = 0"

definition DEFAULT_CAMERA_RESOLUTION :: "int \<times> int" where
  "DEFAULT_CAMERA_RESOLUTION = (640, 480)"

definition RAW_CAMERA_FILTERS :: "(string \<times> string option) list" where
  "RAW_CAMERA_FILTERS =
     [(''None'', None), (''Grayscale'', Some ''grayscale''), (''Blur'', Some ''blur''),
      (''Edges'', Some ''canny''), (''Sepia'', Some ''sepia''), (''Invert'', Some ''invert''),
      (''Cartoon'', Some ''cartoon'')]"

definition RAW_DEFAULT_CAMERA_FILTER :: string where
  "RAW_DEFAULT_CAMERA_FILTER = ''None''"

text \<open>\<^verbatim>\<open>key in d\<close> for a dictionary kept as an association list.\<close>

definition dict_contains :: "('k \<times> 'v) list \<Rightarrow> 'k \<Rightarrow> bool" where
  "dict_contains d k = (map_of d k \<noteq> None)"

section \<open>Python values and exceptions\<close>

text \<open>
  The exceptions that occur below; all of them derive from \<^verbatim>\<open>Exception\<close>, so an
  \<^verbatim>\<open>except Exception\<close> clause catches each.
\<close>

datatype py_exc =
    ImportError | TypeError | ValueError | AttributeError | KeyError | IndexError | RuntimeError
  | OtherException

text \<open>
  An object is seen through its class name and its attributes: what \<^verbatim>\<open>hasattr\<close> answers,
  and whether the attribute is a Qt signal (has \<^verbatim>\<open>connect\<close>), a method decorated with
  \<^verbatim>\<open>@pyqtSlot\<close> (callable, and known to Qt's meta-object), any other callable, or plain
  data.
\<close>

datatype attr_kind = Signal | Slot | Callable | Data

record py_object =
  class_name :: string
  attrs :: "(string \<times> attr_kind) list"

definition hasattr :: "py_object \<Rightarrow> string \<Rightarrow> bool" where
  "hasattr obj name = dict_contains (attrs obj) name"

datatype py_value =
    VNone
  | VBool bool
  | VInt int
  | VFloat int int
  | VStr string
  | VList "py_value list"
  | VDict "(string \<times> py_value) list"
  | VObject py_object
  | VSelf

text \<open>
  \<open>VFloat m e\<close> is the float literal \<open>m \<times> 10\<^sup>e\<close> (only literals are passed on, never
  computed with); \<open>VSelf\<close> is the main window given as \<^verbatim>\<open>parent\<close>.
\<close>

text \<open>\<^verbatim>\<open>xs[i]\<close> for \<open>i \<ge> 0\<close>: out of range raises \<^verbatim>\<open>IndexError\<close>.\<close>

definition py_index :: "'a list \<Rightarrow> nat \<Rightarrow> py_exc + 'a" where
  "py_index xs i = (if i < length xs then Inr (xs ! i) else Inl IndexError)"

section \<open>The internal worker base class\<close>

text \<open>
  \<^verbatim>\<open>class Worker(QObject)\<close>: the name and the flag that a subclass polls in its loop.
  Subclasses extend the record, so \<open>stop\<close> and \<open>shutdown\<close> are inherited as they are in
  the source.
\<close>

record Worker =
  worker_name :: string
  is_running :: bool

definition Worker_init :: "string \<Rightarrow> Worker" where
  "Worker_init name = \<lparr>worker_name = name, is_running = True\<rparr>"

definition stop :: "'a Worker_scheme \<Rightarrow> 'a Worker_scheme \<times> signal list" where
  "stop self = (self\<lparr>is_running := False\<rparr>, [])"

definition shutdown :: "'a Worker_scheme \<Rightarrow> 'a Worker_scheme \<times> signal list" where
  "shutdown self = (let (self', emitted) = stop self in (self', emitted @ [Finished]))"

section \<open>The dummy worker base class\<close>

text \<open>
  \<^verbatim>\<open>class BaseWorkerDummy(QObject)\<close> has the name as its only field (the field is
  \<^verbatim>\<open>worker_name\<close> in the source; the record of \<open>Worker\<close> owns that name here).  Its
  \<^verbatim>\<open>stop\<close> only logs; its \<^verbatim>\<open>shutdown\<close> logs and emits \<^verbatim>\<open>finished\<close>.
\<close>

record BaseWorkerDummy =
  dummy_worker_name :: string

definition BaseWorkerDummy_init :: "string \<Rightarrow> BaseWorkerDummy" where
  "BaseWorkerDummy_init name = \<lparr>dummy_worker_name = name\<rparr>"

definition dummy_stop :: "'a BaseWorkerDummy_scheme \<Rightarrow> 'a BaseWorkerDummy_scheme \<times> signal list" where
  "dummy_stop self = (self, [])"

definition dummy_shutdown :: "'a BaseWorkerDummy_scheme \<Rightarrow> 'a BaseWorkerDummy_scheme \<times> signal list" where
  "dummy_shutdown self = (self, [Finished])"

section \<open>The camera worker\<close>

text \<open>
  \<^verbatim>\<open>cv2.VideoCapture\<close>: the index it was created for and whether the device opened.
\<close>

record VideoCapture =
  cap_index :: py_value
  isOpened :: bool

text \<open>
  \<^verbatim>\<open>__init__\<close> takes the index and the resolution from the configuration as they are,
  without checking them: the index is any value, the resolution a tuple of any length of
  any values.
\<close>

record CameraWorker = Worker +
  camera_index :: py_value
  resolution :: "py_value list"
  cap :: "VideoCapture option"
  current_filter_key :: "string option"

text \<open>
  The two keys \<^verbatim>\<open>__init__\<close> reads from its configuration dictionary, each absent
  (\<open>None\<close>) or present; the resolution is given as \<^verbatim>\<open>tuple(...)\<close> returned it.
\<close>

record camera_config =
  cfg_camera_index :: "py_value option"
  cfg_camera_resolution :: "py_value list option"

definition CameraWorker_init :: "camera_config \<Rightarrow> CameraWorker" where
  "CameraWorker_init config =
     Worker.extend (Worker_init ''CameraWorker'')
       (CameraWorker.fields
          (case cfg_camera_index config of None \<Rightarrow> VInt DEFAULT_CAMERA_INDEX | Some i \<Rightarrow> i)
          (case cfg_camera_resolution config of
             None \<Rightarrow> [VInt (fst DEFAULT_CAMERA_RESOLUTION), VInt (snd DEFAULT_CAMERA_RESOLUTION)]
           | Some r \<Rightarrow> r)
          None
          (Some RAW_DEFAULT_CAMERA_FILTER))"

definition set_filter :: "CameraWorker \<Rightarrow> string \<Rightarrow> CameraWorker \<times> signal list" where
  "set_filter self filter_key =
     (if dict_contains RAW_CAMERA_FILTERS filter_key
      then (self\<lparr>current_filter_key := Some filter_key\<rparr>, [])
      else (self, []))"

text \<open>\<^verbatim>\<open>str(n)\<close> for an integer, as an f-string prints it.\<close>

fun nat_digits :: "nat \<Rightarrow> string" where
  "nat_digits n =
     (if n < 10 then [''0123456789'' ! n]
      else nat_digits (n div 10) @ [''0123456789'' ! (n mod 10)])"

declare nat_digits.simps [simp del]

definition str_int :: "int \<Rightarrow> string" where
  "str_int i = (if i < 0 then CHR ''-'' # nat_digits (nat (- i)) else nat_digits (nat i))"

text \<open>
  How an f-string prints a value.  \<^verbatim>\<open>None\<close>, a truth value, an integer and a string are
  printed as Python does; the text of a float, a container or an object is not spelled
  out and stands as \<^verbatim>\<open><value>\<close>.
\<close>

definition py_str :: "py_value \<Rightarrow> string" where
  "py_str v =
     (case v of
        VNone \<Rightarrow> ''None''
      | VBool b \<Rightarrow> (if b then ''True'' else ''False'')
      | VInt i \<Rightarrow> str_int i
      | VStr text \<Rightarrow> text
      | _ \<Rightarrow> ''<value>'')"

text \<open>
  What \<^verbatim>\<open>run\<close> meets outside the worker: the flags set by the optional imports at the top
  of the module, and OpenCV.  \<open>open_capture i\<close> is \<^verbatim>\<open>cv2.VideoCapture(i)\<close>: it raises, or
  returns a capture with the answer of \<^verbatim>\<open>isOpened()\<close>.  \<open>cap_set p v\<close> is
  \<^verbatim>\<open>self.cap.set(p, v)\<close>: \<open>Some e\<close> when it raises.  \<open>cv2_filter\<close> holds the filter
  operations (\<open>None\<close> when the call raises, which \<^verbatim>\<open>_apply_filter_to_frame\<close> catches).
\<close>

record camera_env =
  CV2_AVAILABLE :: bool
  NUMPY_AVAILABLE :: bool
  open_capture :: "py_value \<Rightarrow> py_exc + bool"
  cap_set :: "string \<Rightarrow> py_value \<Rightarrow> py_exc option"
  cv2_filter :: "string \<Rightarrow> frame \<Rightarrow> frame option"

text \<open>
  What \<^verbatim>\<open>run\<close> does, in order: the signals it emits and its calls on the capture device.
  \<open>Cap_create i ok\<close> is \<^verbatim>\<open>cv2.VideoCapture(i)\<close> with the answer of \<^verbatim>\<open>isOpened()\<close>.
\<close>

datatype camera_event =
    Emit signal
  | Cap_create py_value bool
  | Cap_set string py_value
  | Cap_read
  | Cap_release
  | Msleep int

definition apply_filter_to_frame :: "camera_env \<Rightarrow> CameraWorker \<Rightarrow> frame \<Rightarrow> frame" where
  "apply_filter_to_frame env self frame =
     (if \<not> NUMPY_AVAILABLE env \<or> \<not> CV2_AVAILABLE env then frame
      else
        (case (case current_filter_key self of
                 None \<Rightarrow> None
               | Some k \<Rightarrow> (case map_of RAW_CAMERA_FILTERS k of None \<Rightarrow> None | Some v \<Rightarrow> v)) of
           None \<Rightarrow> frame
         | Some filter_name \<Rightarrow>
             (if filter_name \<in> set [''grayscale'', ''blur'', ''canny'', ''sepia'', ''invert'', ''cartoon'']
              then (case cv2_filter env filter_name frame of None \<Rightarrow> frame | Some f \<Rightarrow> f)
              else frame)))"

text \<open>
  One element per pass of the \<^verbatim>\<open>while self._is_running\<close> loop: the pair returned by
  \<^verbatim>\<open>self.cap.read()\<close> and whether \<^verbatim>\<open>stop()\<close> reached the worker before the next test of
  the flag.  The loop has no bound of its own, so it is run against a finite list of
  passes; the third component of the result says whether the loop was left (\<open>True\<close>) or
  is still running when the list ends (\<open>False\<close>).
\<close>

type_synonym capture_step = "bool \<times> frame \<times> bool"

fun capture_loop ::
  "camera_env \<Rightarrow> capture_step list \<Rightarrow> CameraWorker \<Rightarrow> camera_event list \<times> CameraWorker \<times> bool" where
  "capture_loop env [] self = ([], self, \<not> is_running self)"
| "capture_loop env ((ret, frame, stop_requested) # steps) self =
     (if \<not> is_running self then ([], self, True)
      else if \<not> ret then ([Cap_read], self\<lparr>is_running := False\<rparr>, True)
      else
        (let frame' = (case current_filter_key self of
                         None \<Rightarrow> frame
                       | Some k \<Rightarrow> if k \<noteq> [] \<and> k \<noteq> ''None''
                                  then apply_filter_to_frame env self frame else frame);
             self' = (if stop_requested then fst (stop self) else self);
             (events, self'', exited) = capture_loop env steps self'
         in (Cap_read # Emit (Frame_ready frame') # Msleep 30 # events, self'', exited)))"

text \<open>
  How \<^verbatim>\<open>run\<close> ends: it returns, or the loop is still running when the list of passes
  ends, or an exception leaves it.  Nothing in \<^verbatim>\<open>run\<close> catches an exception.
\<close>

datatype run_outcome = Returned | Running | Raised py_exc

text \<open>
  Lines 843 and 844: \<^verbatim>\<open>self.cap.set(cv2.CAP_PROP_FRAME_WIDTH, self.resolution[0])\<close> and the
  same for the height with \<^verbatim>\<open>self.resolution[1]\<close>; the calls made, and the exception that
  ended them if one was raised.
\<close>

definition set_resolution :: "camera_env \<Rightarrow> py_value list \<Rightarrow> camera_event list \<times> py_exc option" where
  "set_resolution env res =
     (case py_index res 0 of
        Inl e \<Rightarrow> ([], Some e)
      | Inr width \<Rightarrow>
          (case cap_set env ''CAP_PROP_FRAME_WIDTH'' width of
             Some e \<Rightarrow> ([], Some e)
           | None \<Rightarrow>
               (case py_index res 1 of
                  Inl e \<Rightarrow> ([Cap_set ''CAP_PROP_FRAME_WIDTH'' width], Some e)
                | Inr height \<Rightarrow>
                    (case cap_set env ''CAP_PROP_FRAME_HEIGHT'' height of
                       Some e \<Rightarrow> ([Cap_set ''CAP_PROP_FRAME_WIDTH'' width], Some e)
                     | None \<Rightarrow>
                         ([Cap_set ''CAP_PROP_FRAME_WIDTH'' width,
                           Cap_set ''CAP_PROP_FRAME_HEIGHT'' height], None)))))"

definition run ::
  "camera_env \<Rightarrow> capture_step list \<Rightarrow> CameraWorker
     \<Rightarrow> camera_event list \<times> CameraWorker \<times> run_outcome" where
  "run env steps self =
     (if \<not> CV2_AVAILABLE env
      then ([Emit (Error (worker_name self) ''OpenCV (cv2) is not available. Camera cannot operate.''),
             Emit Finished], self, Returned)
      else
        (case open_capture env (camera_index self) of
           Inl e \<Rightarrow> ([], self, Raised e)
         | Inr opened \<Rightarrow>
             (let self1 = self\<lparr>cap := Some \<lparr>cap_index = camera_index self, isOpened = opened\<rparr>\<rparr>
              in if \<not> opened
                 then ([Cap_create (camera_index self) opened,
                        Emit (Error (worker_name self)
                          (''Cannot open camera at index '' @ py_str (camera_index self) @ ''.'')),
                        Emit Finished], self1, Returned)
                 else
                   (case set_resolution env (resolution self) of
                      (sets, Some e) \<Rightarrow>
                        (Cap_create (camera_index self) opened # sets, self1, Raised e)
                    | (sets, None) \<Rightarrow>
                        (let started = Cap_create (camera_index self) opened # sets
                                         @ [Emit (Status_update ''Camera stream started.'' 2000)];
                             (events, self2, exited) =
                               capture_loop env steps (self1\<lparr>is_running := True\<rparr>)
                         in if \<not> exited then (started @ events, self2, Running)
                            else (started @ events
                                    @ (case cap self2 of None \<Rightarrow> [] | Some c \<Rightarrow> [Cap_release])
                                    @ [Emit (Status_update ''Camera stream stopped.'' 2000),
                                       Emit Finished],
                                  self2\<lparr>cap := None\<rparr>, Returned))))))"

text \<open>The signals among the events, in order.\<close>

fun emitted :: "camera_event list \<Rightarrow> signal list" where
  "emitted [] = []"
| "emitted (Emit s # es) = s # emitted es"
| "emitted (_ # es) = emitted es"

text \<open>
  \<open>finish_snapshots held es\<close> replays the events and, at each emission of \<^verbatim>\<open>finished\<close>,
  notes whether an opened capture device is held at that moment: a successful
  \<^verbatim>\<open>VideoCapture\<close> acquires the device, \<^verbatim>\<open>release()\<close> gives it back.
\<close>

fun finish_snapshots :: "bool \<Rightarrow> camera_event list \<Rightarrow> bool list" where
  "finish_snapshots held [] = []"
| "finish_snapshots held (Cap_create i ok # es) = finish_snapshots ok es"
| "finish_snapshots held (Cap_release # es) = finish_snapshots False es"
| "finish_snapshots held (Emit Finished # es) = held # finish_snapshots held es"
| "finish_snapshots held (_ # es) = finish_snapshots held es"

section \<open>Classes\<close>

text \<open>
  A class is its \<^verbatim>\<open>__name__\<close> and what calling it does with positional and keyword
  arguments: an instance, or an exception.
\<close>

record py_class =
  cls_name :: string
  construct :: "py_value list \<Rightarrow> (string \<times> py_value) list \<Rightarrow> py_exc + py_object"

text \<open>
  Binding of a call to a signature \<^verbatim>\<open>(p1, ..., pn)\<close> whose first \<open>required\<close> parameters have
  no default: Python raises \<^verbatim>\<open>TypeError\<close> unless this holds.
\<close>

definition binds :: "string list \<Rightarrow> nat \<Rightarrow> py_value list \<Rightarrow> (string \<times> py_value) list \<Rightarrow> bool" where
  "binds params required args kwargs =
     (length args \<le> length params
      \<and> distinct (map fst kwargs)
      \<and> list_all (\<lambda>k. k \<in> set (drop (length args) params)) (map fst kwargs)
      \<and> list_all (\<lambda>p. p \<in> set (take (length args) params) \<or> p \<in> set (map fst kwargs))
           (take required params))"

definition qobject_attrs :: "(string \<times> attr_kind) list" where
  "qobject_attrs = [(''moveToThread'', Callable)]"

definition base_dummy_attrs :: "(string \<times> attr_kind) list" where
  "base_dummy_attrs =
     [(''error'', Signal), (''finished'', Signal), (''status_update'', Signal),
      (''worker_name'', Data), (''log_dummy_call'', Callable), (''shutdown'', Callable),
      (''stop'', Callable)] @ qobject_attrs"

definition worker_attrs :: "(string \<times> attr_kind) list" where
  "worker_attrs =
     [(''finished'', Signal), (''error'', Signal), (''status_update'', Signal),
      (''worker_name'', Data), (''_is_running'', Data), (''stop'', Callable),
      (''shutdown'', Callable), (''log_internal_worker_call'', Callable)] @ qobject_attrs"

text \<open>A class of this file: its name, its parameters, and the attributes of its instances.\<close>

definition local_class :: "string \<Rightarrow> string list \<Rightarrow> nat \<Rightarrow> (string \<times> attr_kind) list \<Rightarrow> py_class" where
  "local_class name params required instance_attrs =
     \<lparr>cls_name = name,
      construct = (\<lambda>args kwargs.
        if binds params required args kwargs
        then Inr \<lparr>class_name = name, attrs = instance_attrs\<rparr>
        else Inl TypeError)\<rparr>"

definition EmotionWorker_Dummy :: py_class where
  "EmotionWorker_Dummy =
     local_class ''EmotionWorker_Dummy'' [''parent'', ''use_vader_if_available'', ''emotion_config''] 0
       ([(''emotion_detected'', Signal), (''analyze_text_emotion'', Slot)] @ base_dummy_attrs)"

text \<open>
  \<^verbatim>\<open>RobotAppearanceWidget_Dummy.__init__(self, parent=None, **kwargs)\<close> takes any
  keyword.
\<close>

definition RobotAppearanceWidget_Dummy :: py_class where
  "RobotAppearanceWidget_Dummy =
     \<lparr>cls_name = ''RobotAppearanceWidget_Dummy'',
      construct = (\<lambda>args kwargs.
        if length args \<le> 1 \<and> distinct (map fst kwargs)
           \<and> (args \<noteq> [] \<longrightarrow> ''parent'' \<notin> set (map fst kwargs))
        then Inr \<lparr>class_name = ''RobotAppearanceWidget_Dummy'',
                  attrs = [(''request_speak'', Signal), (''label'', Data),
                           (''set_emotion_display'', Slot), (''set_speaking_state'', Slot),
                           (''start_appearance_updates'', Callable),
                           (''stop_appearance_updates'', Callable)]\<rparr>
        else Inl TypeError)\<rparr>"

definition TTSWorker_Dummy :: py_class where
  "TTSWorker_Dummy =
     local_class ''TTSWorker_Dummy'' [''parent''] 0
       ([(''speech_started'', Signal), (''speech_word_boundary'', Signal),
         (''speech_finished'', Signal), (''available_voices_signal'', Signal),
         (''initialize_engine'', Slot), (''speak'', Slot), (''stop_speaking'', Slot),
         (''set_voice'', Slot), (''set_rate'', Slot), (''set_volume'', Slot)]
        @ base_dummy_attrs)"

definition VoiceListenerWorker_Dummy :: py_class where
  "VoiceListenerWorker_Dummy =
     local_class ''VoiceListenerWorker_Dummy''
       [''parent'', ''language'', ''mic_idx'', ''energy'', ''pause'', ''phrase_limit''] 0
       ([(''text_recognized'', Signal), (''listening_started_signal'', Signal),
         (''listening_stopped_signal'', Signal), (''vad_status_changed'', Signal),
         (''listening_error'', Signal), (''_is_listening'', Data), (''language'', Data),
         (''initialize_microphone'', Slot), (''start_listening'', Slot),
         (''_simulate_recognition_if_active'', Callable), (''stop_listening'', Slot),
         (''set_language'', Slot)]
        @ base_dummy_attrs)"

definition NLPWorker_Dummy :: py_class where
  "NLPWorker_Dummy =
     local_class ''NLPWorker_Dummy'' [''dependencies'', ''parent''] 0
       ([(''processing_complete'', Signal), (''robot_info'', Data),
         (''process_user_input'', Slot)] @ base_dummy_attrs)"

definition RobotInfoModule_Dummy :: py_class where
  "RobotInfoModule_Dummy =
     local_class ''RobotInfoModule_Dummy'' [''dependencies''] 0
       [(''dev_info'', Data), (''robot_info'', Data), (''faq_info'', Data),
        (''get_information'', Callable), (''get_robot_info'', Callable),
        (''get_developer_info'', Callable), (''log_dummy_call'', Callable)]"

definition GrammarSystem_Dummy :: py_class where
  "GrammarSystem_Dummy =
     local_class ''GrammarSystem_Dummy'' [''language_code''] 0
       [(''lang_code'', Data), (''analyze_and_correct'', Callable), (''log_dummy_call'', Callable)]"

definition MultiLangCorrectionModule_Dummy :: py_class where
  "MultiLangCorrectionModule_Dummy =
     local_class ''MultiLangCorrectionModule_Dummy'' [''config''] 0
       [(''SUPPORTED_LANGUAGES'', Data), (''config'', Data),
        (''detect_language_robust'', Callable), (''correct_text'', Callable),
        (''log_dummy_call'', Callable)]"

section \<open>Conditional imports\<close>

text \<open>The two module globals that \<^verbatim>\<open>_try_import\<close> updates.\<close>

record globals =
  MODULE_IMPORTS_OK :: bool
  MISSING_MODULES :: "string list"

definition initial_globals :: globals where
  "initial_globals = \<lparr>MODULE_IMPORTS_OK = True, MISSING_MODULES = []\<rparr>"

text \<open>
  What a module binds a name to: a class (or another callable that has \<^verbatim>\<open>__name__\<close>), or a
  plain value (\<^verbatim>\<open>None\<close>, a number, a string, a container, an instance), which has no
  \<^verbatim>\<open>__name__\<close>.  \<^verbatim>\<open>hasattr(module, name)\<close> holds for either.
\<close>

datatype py_member = Class py_class | Plain py_value

text \<open>
  What \<^verbatim>\<open>__import__(module_name, fromlist=...)\<close> does: it returns a module, seen as the
  map from member names to members, or it raises.
\<close>

datatype import_result = Module "string \<rightharpoonup> py_member" | Raises py_exc

type_synonym importer = "string \<Rightarrow> import_result"

text \<open>
  The \<^verbatim>\<open>for item_name in items_to_import\<close> loop, on the pair of \<^verbatim>\<open>imported_items\<close> and
  \<^verbatim>\<open>all_items_found_in_module\<close>.
\<close>

fun import_items ::
  "(string \<rightharpoonup> py_member) \<Rightarrow> string list \<Rightarrow> (string \<times> py_member) list \<times> bool
     \<Rightarrow> (string \<times> py_member) list \<times> bool" where
  "import_items module [] acc = acc"
| "import_items module (item_name # rest) (imported_items, all_found) =
     (case module item_name of
        Some member \<Rightarrow> import_items module rest (AList.update item_name member imported_items, all_found)
      | None \<Rightarrow> import_items module rest (imported_items, False))"

definition note_missing :: "string \<Rightarrow> string \<Rightarrow> string list \<Rightarrow> string list" where
  "note_missing file_hint entry missing =
     (if file_hint \<notin> set missing then missing @ [entry] else missing)"

definition try_import ::
  "importer \<Rightarrow> string \<Rightarrow> string list \<Rightarrow> string \<Rightarrow> globals
     \<Rightarrow> ((string \<times> py_member) list option \<times> bool) \<times> globals" where
  "try_import import_module module_name items_to_import file_hint g =
     (case import_module module_name of
        Module module \<Rightarrow>
          (let (imported_items, all_items_found_in_module) =
                 import_items module items_to_import ([], True);
               g' = (if \<not> all_items_found_in_module
                     then g\<lparr>MISSING_MODULES :=
                              note_missing file_hint (file_hint @ '' (item missing within module)'')
                                (MISSING_MODULES g),
                            MODULE_IMPORTS_OK := False\<rparr>
                     else g)
           in ((if all_items_found_in_module \<and> imported_items \<noteq> [] then Some imported_items else None,
                all_items_found_in_module \<and> imported_items \<noteq> []), g'))
      | Raises e \<Rightarrow>
          (if e = ImportError
           then ((None, False),
                 g\<lparr>MODULE_IMPORTS_OK := False,
                   MISSING_MODULES := note_missing file_hint file_hint (MISSING_MODULES g)\<rparr>)
           else ((None, False),
                 g\<lparr>MODULE_IMPORTS_OK := False,
                   MISSING_MODULES :=
                     note_missing file_hint (file_hint @ '' (unexpected import error)'')
                       (MISSING_MODULES g)\<rparr>)))"

text \<open>
  The registry: one row per \<^verbatim>\<open>_try_import\<close> call of the module body, with the class
  the \<^verbatim>\<open>_cls\<close> variable falls back to.
\<close>

record capability =
  import_name :: string
  import_item :: string
  import_hint :: string
  fallback :: py_class

definition registry :: "capability list" where
  "registry =
     [\<lparr>import_name = ''emotion_engine'', import_item = ''EmotionWorker'',
       import_hint = ''emotion_engine.py'', fallback = EmotionWorker_Dummy\<rparr>,
      \<lparr>import_name = ''robot_appearance'', import_item = ''RobotAppearanceWidget'',
       import_hint = ''robot_appearance.py'', fallback = RobotAppearanceWidget_Dummy\<rparr>,
      \<lparr>import_name = ''voice_output_v2'', import_item = ''TTSWorker'',
       import_hint = ''voice_output_v2.py'', fallback = TTSWorker_Dummy\<rparr>,
      \<lparr>import_name = ''robot_audio_listener_v2'', import_item = ''VoiceListenerWorker'',
       import_hint = ''robot_audio_listener_v2.py'', fallback = VoiceListenerWorker_Dummy\<rparr>,
      \<lparr>import_name = ''nlp_worker_v2'', import_item = ''NLPWorker'',
       import_hint = ''nlp_worker_v2.py'', fallback = NLPWorker_Dummy\<rparr>,
      \<lparr>import_name = ''robot_info_module_v2'', import_item = ''RobotInfoModule'',
       import_hint = ''robot_info_module_v2.py'', fallback = RobotInfoModule_Dummy\<rparr>,
      \<lparr>import_name = ''grammar_system_v2'', import_item = ''GrammarSystem'',
       import_hint = ''grammar_system_v2.py'', fallback = GrammarSystem_Dummy\<rparr>,
      \<lparr>import_name = ''multi_language_correction_v2'', import_item = ''EnhancedMultilingualCorrector'',
       import_hint = ''multi_language_correction_v2.py'', fallback = MultiLangCorrectionModule_Dummy\<rparr>]"

text \<open>
  \<^verbatim>\<open>X_cls = imported["X"] if imported else X_Dummy\<close>: an empty dictionary and \<^verbatim>\<open>None\<close> are
  both false; subscripting with an absent key raises \<^verbatim>\<open>KeyError\<close>.
\<close>

definition bind_cls ::
  "(string \<times> py_member) list option \<Rightarrow> string \<Rightarrow> py_class \<Rightarrow> py_exc + py_member" where
  "bind_cls imported name dummy =
     (case imported of
        None \<Rightarrow> Inr (Class dummy)
      | Some items \<Rightarrow>
          if items = [] then Inr (Class dummy)
          else (case map_of items name of None \<Rightarrow> Inl KeyError | Some member \<Rightarrow> Inr member))"

definition resolve :: "importer \<Rightarrow> capability \<Rightarrow> globals \<Rightarrow> (py_exc + py_member) \<times> globals" where
  "resolve import_module c g =
     (let ((imported, ok), g') = try_import import_module (import_name c) [import_item c] (import_hint c) g
      in (bind_cls imported (import_item c) (fallback c), g'))"

text \<open>
  The module body runs the rows in order; an exception that escaped a row would end the
  import of the application there.
\<close>

fun resolve_all :: "importer \<Rightarrow> capability list \<Rightarrow> globals \<Rightarrow> (py_exc + py_member list) \<times> globals" where
  "resolve_all import_module [] g = (Inr [], g)"
| "resolve_all import_module (c # cs) g =
     (case resolve import_module c g of
        (Inl e, g') \<Rightarrow> (Inl e, g')
      | (Inr cls, g') \<Rightarrow>
          (case resolve_all import_module cs g' of
             (Inl e, g'') \<Rightarrow> (Inl e, g'')
           | (Inr rest, g'') \<Rightarrow> (Inr (cls # rest), g'')))"

text \<open>
  After the bindings the module body logs \<^verbatim>\<open>X_cls.__name__\<close> for each of the eight
  variables (lines 694 to 701), in the order of the rows; a value without \<^verbatim>\<open>__name__\<close>
  raises \<^verbatim>\<open>AttributeError\<close> there.
\<close>

definition dunder_name :: "py_member \<Rightarrow> py_exc + string" where
  "dunder_name member = (case member of Class cls \<Rightarrow> Inr (cls_name cls) | Plain v \<Rightarrow> Inl AttributeError)"

fun class_names :: "py_member list \<Rightarrow> py_exc + string list" where
  "class_names [] = Inr []"
| "class_names (member # rest) =
     (case dunder_name member of
        Inl e \<Rightarrow> Inl e
      | Inr name \<Rightarrow> (case class_names rest of Inl e \<Rightarrow> Inl e | Inr names \<Rightarrow> Inr (name # names)))"

text \<open>
  Lines 656 to 706 of the module body: the eight bindings, then the summary.  The result
  is the list of the bound variables, or the exception that ends the import of the
  application.
\<close>

definition load_external_modules :: "importer \<Rightarrow> globals \<Rightarrow> (py_exc + py_member list) \<times> globals" where
  "load_external_modules import_module g =
     (case resolve_all import_module registry g of
        (Inl e, g') \<Rightarrow> (Inl e, g')
      | (Inr bound, g') \<Rightarrow>
          (case class_names bound of Inl e \<Rightarrow> (Inl e, g') | Inr names \<Rightarrow> (Inr bound, g')))"

text \<open>What a row binds: the member the module offers, else the fallback class.\<close>

definition resolved_member :: "importer \<Rightarrow> capability \<Rightarrow> py_member" where
  "resolved_member import_module c =
     (case import_module (import_name c) of
        Module module \<Rightarrow>
          (case module (import_item c) of Some real \<Rightarrow> real | None \<Rightarrow> Class (fallback c))
      | Raises e \<Rightarrow> Class (fallback c))"

text \<open>
  An importer to evaluate with: \<^verbatim>\<open>emotion_engine\<close> loads and offers \<^verbatim>\<open>EmotionWorker\<close>,
  \<^verbatim>\<open>nlp_worker_v2\<close> loads without the member asked for, \<^verbatim>\<open>voice_output_v2\<close> fails
  while loading, and no other module is installed.
\<close>

definition external_class :: "string \<Rightarrow> py_class" where
  "external_class name =
     \<lparr>cls_name = name,
      construct = (\<lambda>args kwargs. Inr \<lparr>class_name = name, attrs = worker_attrs\<rparr>)\<rparr>"

definition example_importer :: importer where
  "example_importer name =
     (if name = ''emotion_engine''
      then Module [''EmotionWorker'' \<mapsto> Class (external_class ''EmotionWorker'')]
      else if name = ''nlp_worker_v2'' then Module Map.empty
      else if name = ''voice_output_v2'' then Raises OtherException
      else Raises ImportError)"

text \<open>
  An importer where \<^verbatim>\<open>emotion_engine.py\<close> is installed and contains
  \<^verbatim>\<open>EmotionWorker = None\<close>, as a module does that guards an import of its own; no other
  module is installed.
\<close>

definition none_member_importer :: importer where
  "none_member_importer name =
     (if name = ''emotion_engine'' then Module [''EmotionWorker'' \<mapsto> Plain VNone]
      else Raises ImportError)"

section \<open>The dummy text-to-speech worker\<close>

text \<open>
  \<^verbatim>\<open>text.split()\<close>: the maximal runs of characters that are not whitespace.  A character
  stands for its code point; below 256 the ones Python counts as whitespace are these.
\<close>

definition is_space :: "char \<Rightarrow> bool" where
  "is_space c = ((of_char c :: nat) \<in> set [9, 10, 11, 12, 13, 28, 29, 30, 31, 32, 133, 160])"

fun split_words :: "string \<Rightarrow> string \<Rightarrow> string list" where
  "split_words word [] = (if word = [] then [] else [word])"
| "split_words word (c # cs) =
     (if is_space c then (if word = [] then split_words [] cs else word # split_words [] cs)
      else split_words (word @ [c]) cs)"

definition py_split :: "string \<Rightarrow> string list" where
  "py_split text = split_words [] text"

text \<open>
  \<^verbatim>\<open>QTimer.singleShot(ms, f)\<close> is kept as the pair of the delay and the signal that \<open>f\<close>
  emits.  \<open>word_timers i char_pos words\<close> is the \<^verbatim>\<open>for i, word_val in enumerate(words)\<close>
  loop from index \<open>i\<close> on.
\<close>

type_synonym timer = "int \<times> signal"

fun word_timers :: "int \<Rightarrow> int \<Rightarrow> string list \<Rightarrow> timer list" where
  "word_timers i char_pos [] = []"
| "word_timers i char_pos (word_val # rest) =
     (i * 200 + 200 div 2, Speech_word_boundary word_val char_pos (int (length word_val)))
       # word_timers (i + 1) (char_pos + int (length word_val) + 1) rest"

text \<open>
  \<^verbatim>\<open>TTSWorker_Dummy\<close> adds no field to its base class.  \<open>speak\<close> returns the worker, the
  signals emitted during the call, and the timers it started, in the order they were started.
\<close>

definition speak :: "BaseWorkerDummy \<Rightarrow> string \<Rightarrow> BaseWorkerDummy \<times> signal list \<times> timer list" where
  "speak self text =
     (let words = py_split text
      in (self, [Speech_started text],
          word_timers 0 0 words @ [(int (length words) * 200 + 200, Speech_finished text)]))"

text \<open>
  The event loop of the worker's thread fires single-shot timers started together in the
  order of their delays, and equal delays in the order they were started.
\<close>

definition event_loop :: "timer list \<Rightarrow> signal list" where
  "event_loop timers = map snd (sort_key fst timers)"

definition speak_trace :: "BaseWorkerDummy \<Rightarrow> string \<Rightarrow> signal list" where
  "speak_trace self text = (let (self', now, timers) = speak self text in now @ event_loop timers)"

section \<open>The main window\<close>

record QThread =
  objectName :: string
  isRunning :: bool

text \<open>The dictionary \<^verbatim>\<open>{"worker": ..., "thread": ...}\<close> kept per capability.\<close>

record worker_entry =
  worker :: "py_object option"
  thread :: "QThread option"

text \<open>A signal-slot connection: sender, signal, receiver, slot.\<close>

type_synonym connection = "string \<times> string \<times> string \<times> string"

record MainWindow =
  config :: py_value
  robot_info_direct_instance :: py_value
  workers :: "(string \<times> worker_entry) list"
  connections :: "connection list"

text \<open>\<^verbatim>\<open>MainWindow.__init__\<close>, for the fields used below.\<close>

definition MainWindow_init :: MainWindow where
  "MainWindow_init =
     \<lparr>config = VDict [], robot_info_direct_instance = VNone, workers = [], connections = []\<rparr>"

text \<open>
  The names \<^verbatim>\<open>def\<close>-ined in the body of \<^verbatim>\<open>class MainWindow\<close>, in source order.  The two
  \<^verbatim>\<open>def\<close>s that follow \<^verbatim>\<open>check_module_import_status_and_notify\<close> one level deeper
  (a second \<^verbatim>\<open>_initial_worker_calls_and_notifications\<close> and
  \<^verbatim>\<open>_setup_workers_and_threads\<close>) are statements of that method's body: they bind
  local names when the method runs and add nothing to the class.
\<close>

definition MainWindow_methods :: "string list" where
  "MainWindow_methods =
     [''__init__'', ''_perform_full_initialization'', ''_load_config'', ''_setup_logging'',
      ''_load_app_icons'', ''_init_ui'', ''_create_menu_bar'', ''_create_chat_interface'',
      ''_create_robot_interface'', ''_create_camera_interface'', ''_create_control_panel'',
      ''_handle_theme_action_triggered'', ''_handle_theme_combo_change_slot'', ''_apply_theme'',
      ''_update_theme_menu_and_combo_selection'', ''_update_chat_colors'',
      ''_update_chat_display_style'', ''zoom_in_chat'', ''zoom_out_chat'', ''reset_chat_zoom'',
      ''_apply_chat_font_size'', ''add_chat_message'', ''_update_all_button_states'',
      ''_update_camera_button_text'', ''_update_voice_output_button_text'',
      ''_update_voice_input_button_text'', ''show_about_dialog_slot'',
      ''open_settings_dialog_slot'', ''handle_settings_changed'', ''show_user_guide_dialog_slot'',
      ''show_module_status_slot'', ''_get_module_statuses'', ''_update_module_status_icon'',
      ''save_chat_history_as_slot'', ''load_chat_history_slot'',
      ''_initial_worker_calls_and_notifications'', ''_request_tts_voices'',
      ''check_module_import_status_and_notify'', ''send_input_slot'', ''_handle_slash_command'',
      ''clear_chat_slot'', ''toggle_camera_slot'', ''_handle_filter_combo_change_slot'',
      ''capture_image_slot'', ''toggle_voice_output_slot'', ''toggle_voice_input_slot'',
      ''interrupt_tts_slot'', ''change_tts_voice_selection_slot'', ''change_tts_rate_slot'',
      ''change_tts_volume_slot'', ''handle_nlp_result'', ''handle_emotion_update'',
      ''handle_speech_started'', ''handle_speech_word_boundary'', ''handle_speech_finished'',
      ''handle_available_voices'', ''handle_recognized_voice'',
      ''handle_voice_listener_started_ui'', ''handle_voice_listener_stopped_ui'',
      ''handle_vad_status_changed'', ''handle_listening_error'', ''update_camera_feed'',
      ''handle_image_saved'', ''handle_worker_error'', ''update_status'', ''closeEvent'']"

text \<open>The class-level signals and the attributes that \<^verbatim>\<open>__init__\<close> assigns.\<close>

definition MainWindow_fields :: "string list" where
  "MainWindow_fields =
     [''start_nlp_processing'', ''request_emotion_analysis'', ''stop_tts_signal'',
      ''request_camera_filter_change'',
      ''config'', ''settings'', ''icons'', ''workers'', ''robot_info_direct_instance'',
      ''current_theme_name'', ''current_chat_font_size'', ''camera_on'', ''_last_camera_frame'',
      ''current_camera_filter_key'', ''voice_output_enabled'', ''voice_input_on'',
      ''available_tts_voices'', ''menu_bar'', ''theme_menu'', ''theme_action_group'',
      ''status_bar'', ''module_status_icon_label'', ''chat_display'', ''user_input'',
      ''send_button'', ''clear_chat_button'', ''status_labels'',
      ''robot_appearance_widget_instance'', ''cam_btn'', ''filter_combo'',
      ''raw_keys_for_filters'', ''capture_btn'', ''camera_label'', ''theme_combo'',
      ''theme_combo_keys'', ''voice_input_btn'', ''voice_output_btn'', ''tts_stop_button'',
      ''voice_select_combo'', ''rate_slider'', ''rate_label'', ''volume_slider'', ''volume_label'']"

text \<open>
  \<^verbatim>\<open>hasattr(self, name)\<close> for the names this file looks up on the window; none of them is
  a member inherited from \<^verbatim>\<open>QMainWindow\<close>.
\<close>

definition self_hasattr :: "string \<Rightarrow> bool" where
  "self_hasattr name = (name \<in> set MainWindow_methods \<or> name \<in> set MainWindow_fields)"

subsection \<open>The internal worker classes as classes\<close>

text \<open>\<^verbatim>\<open>d.get(key, default)\<close>; anything but a dictionary has no \<^verbatim>\<open>get\<close>.\<close>

definition py_get :: "py_value \<Rightarrow> string \<Rightarrow> py_value \<Rightarrow> py_exc + py_value" where
  "py_get d key fallback_value =
     (case d of
        VDict items \<Rightarrow> Inr (case map_of items key of None \<Rightarrow> fallback_value | Some v \<Rightarrow> v)
      | _ \<Rightarrow> Inl AttributeError)"

definition iterable :: "py_value \<Rightarrow> bool" where
  "iterable v = (case v of VStr s \<Rightarrow> True | VList l \<Rightarrow> True | VDict d \<Rightarrow> True | _ \<Rightarrow> False)"

text \<open>The value a call binds to parameter \<open>name\<close>, positionally or by keyword.\<close>

definition bound_arg ::
  "string list \<Rightarrow> py_value list \<Rightarrow> (string \<times> py_value) list \<Rightarrow> string \<Rightarrow> py_value option" where
  "bound_arg params args kwargs name =
     (case map_of (zip params args) name of Some v \<Rightarrow> Some v | None \<Rightarrow> map_of kwargs name)"

definition camera_attrs :: "(string \<times> attr_kind) list" where
  "camera_attrs =
     [(''frame_ready'', Signal), (''config'', Data), (''camera_index'', Data),
      (''resolution'', Data), (''cap'', Data), (''current_filter_key'', Data),
      (''set_filter'', Slot), (''_apply_filter_to_frame'', Callable), (''run'', Slot)]
     @ worker_attrs"

text \<open>
  \<^verbatim>\<open>CameraWorker(config, parent=None)\<close>: \<^verbatim>\<open>__init__\<close> calls \<^verbatim>\<open>config.get\<close> twice and
  \<^verbatim>\<open>tuple(...)\<close> on the resolution.
\<close>

definition CameraWorker_cls :: py_class where
  "CameraWorker_cls =
     \<lparr>cls_name = ''CameraWorker'',
      construct = (\<lambda>args kwargs.
        if \<not> binds [''config'', ''parent''] 1 args kwargs then Inl TypeError
        else
          (case bound_arg [''config'', ''parent''] args kwargs ''config'' of
             None \<Rightarrow> Inl TypeError
           | Some cfg \<Rightarrow>
               (case py_get cfg ''camera_index'' (VInt DEFAULT_CAMERA_INDEX) of
                  Inl e \<Rightarrow> Inl e
                | Inr index \<Rightarrow>
                    (case py_get cfg ''camera_resolution''
                            (VList [VInt (fst DEFAULT_CAMERA_RESOLUTION),
                                    VInt (snd DEFAULT_CAMERA_RESOLUTION)]) of
                       Inl e \<Rightarrow> Inl e
                     | Inr res \<Rightarrow>
                         if iterable res
                         then Inr \<lparr>class_name = ''CameraWorker'', attrs = camera_attrs\<rparr>
                         else Inl TypeError))))\<rparr>"

definition ImageSaveWorker_cls :: py_class where
  "ImageSaveWorker_cls =
     local_class ''ImageSaveWorker'' [''parent''] 0
       ([(''image_saved'', Signal), (''save_image'', Slot)] @ worker_attrs)"

subsection \<open>Setting up the workers\<close>

text \<open>The class variables that the module body binds.\<close>

record class_bindings =
  EmotionWorker_cls :: py_class
  RobotAppearanceWidget_cls :: py_class
  TTSWorker_cls :: py_class
  VoiceListenerWorker_cls :: py_class
  NLPWorker_cls :: py_class
  RobotInfoModule_for_deps :: py_class
  GrammarSystem_for_deps :: py_class
  MultiLangCorrector_for_deps :: py_class

text \<open>\<^verbatim>\<open>needle in haystack\<close> for strings.\<close>

fun str_contains :: "string \<Rightarrow> string \<Rightarrow> bool" where
  "str_contains needle [] = (needle = [])"
| "str_contains needle (c # cs) = (prefix needle (c # cs) \<or> str_contains needle cs)"

definition is_dummy_class :: "py_class \<Rightarrow> bool" where
  "is_dummy_class cls = str_contains ''Dummy'' (cls_name cls)"

text \<open>\<^verbatim>\<open>self.config.get("speech_to_text_settings", {}).get(key, default)\<close>.\<close>

definition stt_setting :: "py_value \<Rightarrow> string \<Rightarrow> py_value \<Rightarrow> py_exc + py_value" where
  "stt_setting cfg key fallback_value =
     (case py_get cfg ''speech_to_text_settings'' (VDict []) of
        Inl e \<Rightarrow> Inl e
      | Inr stt \<Rightarrow> py_get stt key fallback_value)"

text \<open>Argument expressions are evaluated left to right; the first that raises ends the call.\<close>

fun eval_args :: "(py_exc + 'a) list \<Rightarrow> py_exc + 'a list" where
  "eval_args [] = Inr []"
| "eval_args (Inl e # rest) = Inl e"
| "eval_args (Inr v # rest) = (case eval_args rest of Inl e \<Rightarrow> Inl e | Inr vs \<Rightarrow> Inr (v # vs))"

text \<open>The keyword arguments, after \<^verbatim>\<open>parent\<close>, that the dummy listener is built with.\<close>

definition listener_dummy_kwargs :: "py_value \<Rightarrow> py_exc + (string \<times> py_value) list" where
  "listener_dummy_kwargs cfg =
     (case eval_args
             [stt_setting cfg ''language'' (VStr ''en-US''),
              stt_setting cfg ''microphone_index'' VNone,
              stt_setting cfg ''energy_threshold'' (VInt 300),
              stt_setting cfg ''pause_threshold'' (VFloat 8 (- 1)),
              stt_setting cfg ''phrase_time_limit'' (VFloat 50 (- 1))] of
        Inl e \<Rightarrow> Inl e
      | Inr values \<Rightarrow>
          Inr (zip [''language'', ''mic_idx'', ''energy'', ''pause'', ''phrase_limit''] values))"

text \<open>The positional arguments tried on a real listener class.\<close>

definition vls_args_possible :: "py_value \<Rightarrow> py_exc + py_value list" where
  "vls_args_possible cfg =
     eval_args
       [stt_setting cfg ''language'' (VStr ''en-US''),
        stt_setting cfg ''microphone_index'' VNone,
        stt_setting cfg ''energy_threshold'' (VInt 300),
        stt_setting cfg ''pause_threshold'' (VFloat 8 (- 1)),
        stt_setting cfg ''phrase_time_limit'' (VFloat 50 (- 1)),
        stt_setting cfg ''stt_engine'' (VStr ''google'')]"

text \<open>
  \<^verbatim>\<open>for i in range(len(vls_args_possible), 0, -1)\<close>: the first \<open>i\<close> arguments are tried,
  a \<^verbatim>\<open>TypeError\<close> goes on to \<open>i - 1\<close>, any other outcome ends the loop.  \<open>None\<close>: every
  arity raised \<^verbatim>\<open>TypeError\<close>.
\<close>

fun try_positional :: "py_class \<Rightarrow> py_value list \<Rightarrow> nat \<Rightarrow> (py_exc + py_object) option" where
  "try_positional cls args 0 = None"
| "try_positional cls args (Suc i) =
     (case construct cls (take (Suc i) args) [] of
        Inl TypeError \<Rightarrow> try_positional cls args i
      | r \<Rightarrow> Some r)"

definition parent_kw :: "(string \<times> py_value) list" where
  "parent_kw = [(''parent'', VSelf)]"

text \<open>
  The instantiation part of the \<^verbatim>\<open>try\<close> block, by capability.  In the branch for a real
  NLP worker the handler around \<^verbatim>\<open>GrammarSystem_for_deps(...)\<close> tests
  \<^verbatim>\<open>isinstance(GrammarSystem_for_deps, GrammarSystem_Dummy)\<close>, which is false for a
  class, so it always builds a \<^verbatim>\<open>GrammarSystem_Dummy\<close>.
\<close>

definition construct_worker ::
  "class_bindings \<Rightarrow> py_value \<Rightarrow> py_value \<Rightarrow> string \<Rightarrow> py_class \<Rightarrow> py_exc + py_object" where
  "construct_worker b cfg robot_info w_name WorkerClass =
     (if w_name = ''emotion'' then
        (if is_dummy_class WorkerClass then construct WorkerClass [] parent_kw
         else (case construct WorkerClass [] parent_kw of
                 Inl TypeError \<Rightarrow> construct WorkerClass [] []
               | r \<Rightarrow> r))
      else if w_name = ''tts'' then construct WorkerClass [] []
      else if w_name = ''voice_listener'' then
        (if is_dummy_class WorkerClass
         then (case listener_dummy_kwargs cfg of
                 Inl e \<Rightarrow> Inl e
               | Inr kwargs \<Rightarrow> construct WorkerClass [] (parent_kw @ kwargs))
         else (case vls_args_possible cfg of
                 Inl e \<Rightarrow> Inl e
               | Inr args \<Rightarrow>
                   (case try_positional WorkerClass args (length args) of
                      Some r \<Rightarrow> r
                    | None \<Rightarrow> construct WorkerClass [] [])))
      else if w_name = ''nlp'' then
        (if is_dummy_class WorkerClass
         then construct WorkerClass []
                ([(''dependencies'', VDict [(''robot_info_module'', robot_info)])] @ parent_kw)
         else
           (case (case construct (GrammarSystem_for_deps b) [] [(''language_code'', VStr ''en-US'')] of
                    Inl e \<Rightarrow> construct GrammarSystem_Dummy [] [(''language_code'', VStr ''en-US'')]
                  | Inr grammar \<Rightarrow> Inr grammar) of
              Inl e \<Rightarrow> Inl e
            | Inr grammar_system_instance \<Rightarrow>
                (case py_get cfg ''multilang_settings'' VNone of
                   Inl e \<Rightarrow> Inl e
                 | Inr multilang_settings \<Rightarrow>
                     (case construct (MultiLangCorrector_for_deps b) [] [(''config'', multilang_settings)] of
                        Inl e \<Rightarrow> Inl e
                      | Inr corrector \<Rightarrow>
                          (let dependencies_dict_real =
                                 VDict [(''robot_info_module'', robot_info),
                                        (''grammar_system'', VObject grammar_system_instance),
                                        (''multi_lang_corrector'', VObject corrector)]
                           in case construct WorkerClass [dependencies_dict_real] [] of
                                Inl TypeError \<Rightarrow> construct WorkerClass [dependencies_dict_real] parent_kw
                              | r \<Rightarrow> r)))))
      else if w_name = ''camera'' then
        (case py_get cfg ''camera_settings'' (VDict []) of
           Inl e \<Rightarrow> Inl e
         | Inr camera_config \<Rightarrow> construct WorkerClass [camera_config] parent_kw)
      else if w_name = ''image_save'' then construct WorkerClass [] parent_kw
      else construct WorkerClass [] parent_kw)"

text \<open>
  The rest of the \<^verbatim>\<open>try\<close> block makes connections.  Each step yields \<open>Inr ()\<close> or the
  exception it raises, with the connections made up to there.
\<close>

type_synonym wiring = "(py_exc + unit) \<times> connection list"

definition and_then :: "wiring \<Rightarrow> wiring \<Rightarrow> wiring" where
  "and_then first second =
     (case fst first of
        Inl e \<Rightarrow> (Inl e, snd first)
      | Inr u \<Rightarrow> (fst second, snd first @ snd second))"

definition move_to_thread :: "py_object \<Rightarrow> wiring" where
  "move_to_thread obj =
     (case map_of (attrs obj) ''moveToThread'' of
        None \<Rightarrow> (Inl AttributeError, [])
      | Some Callable \<Rightarrow> (Inr (), [])
      | Some Slot \<Rightarrow> (Inr (), [])
      | Some other \<Rightarrow> (Inl TypeError, []))"

text \<open>\<^verbatim>\<open>getattr(obj, signal_name).connect(...)\<close>: only a signal has \<^verbatim>\<open>connect\<close>.\<close>

definition connect_signal :: "py_object \<Rightarrow> connection \<Rightarrow> wiring" where
  "connect_signal obj c =
     (case map_of (attrs obj) (fst (snd c)) of
        Some Signal \<Rightarrow> (Inr (), [c])
      | other \<Rightarrow> (Inl AttributeError, []))"

definition original_setups_data :: "(string \<times> (string \<times> string) list) list" where
  "original_setups_data =
     [(''emotion'', [(''emotion_detected'', ''handle_emotion_update''), (''error'', ''handle_worker_error'')]),
      (''tts'', [(''speech_started'', ''handle_speech_started''),
                 (''speech_word_boundary'', ''handle_speech_word_boundary''),
                 (''speech_finished'', ''handle_speech_finished''),
                 (''available_voices_signal'', ''handle_available_voices''),
                 (''error'', ''handle_worker_error'')]),
      (''voice_listener'', [(''text_recognized'', ''handle_recognized_voice''),
                            (''listening_started_signal'', ''handle_voice_listener_started_ui''),
                            (''listening_stopped_signal'', ''handle_voice_listener_stopped_ui''),
                            (''vad_status_changed'', ''handle_vad_status_changed''),
                            (''listening_error'', ''handle_listening_error''),
                            (''error'', ''handle_worker_error'')]),
      (''nlp'', [(''processing_complete'', ''handle_nlp_result''), (''error'', ''handle_worker_error'')]),
      (''camera'', [(''frame_ready'', ''update_camera_feed''), (''error'', ''handle_worker_error'')]),
      (''image_save'', [(''image_saved'', ''handle_image_saved''), (''error'', ''handle_worker_error'')])]"

text \<open>
  Building the table evaluates every \<^verbatim>\<open>self.handle_...\<close> in it; a name the window
  lacks raises \<^verbatim>\<open>AttributeError\<close> there.
\<close>

definition build_setups_data :: wiring where
  "build_setups_data =
     (if list_all self_hasattr (concat (map (\<lambda>row. map snd (snd row)) original_setups_data))
      then (Inr (), []) else (Inl AttributeError, []))"

fun wire_signals :: "string \<Rightarrow> py_object \<Rightarrow> (string \<times> string) list \<Rightarrow> wiring" where
  "wire_signals w_name obj [] = (Inr (), [])"
| "wire_signals w_name obj ((signal_name, slot_method) # rest) =
     (if hasattr obj signal_name \<and> self_hasattr slot_method
      then and_then (connect_signal obj (w_name, signal_name, ''MainWindow'', slot_method))
             (wire_signals w_name obj rest)
      else wire_signals w_name obj rest)"

definition connect_run :: "string \<Rightarrow> py_object \<Rightarrow> wiring" where
  "connect_run w_name obj =
     (if w_name = ''camera'' \<and> hasattr obj ''run''
      then (case map_of (attrs obj) ''run'' of
              Some Data \<Rightarrow> (Inl TypeError, [])
            | other \<Rightarrow> (Inr (), [(w_name @ ''Thread'', ''started'', w_name, ''run'')]))
      else (Inr (), []))"

text \<open>
  The \<^verbatim>\<open>try\<close> block for one capability, up to the point where the entry is stored: the
  worker and its new thread, or the exception raised, and the connections made on the way.
\<close>

definition setup_body ::
  "class_bindings \<Rightarrow> py_value \<Rightarrow> py_value \<Rightarrow> string \<Rightarrow> py_class
     \<Rightarrow> (py_exc + py_object \<times> QThread) \<times> connection list" where
  "setup_body b cfg robot_info w_name WorkerClass =
     (case construct_worker b cfg robot_info w_name WorkerClass of
        Inl e \<Rightarrow> (Inl e, [])
      | Inr worker_instance \<Rightarrow>
          (let new_thread = \<lparr>objectName = w_name @ ''Thread'', isRunning = False\<rparr>;
               wired =
                 and_then (move_to_thread worker_instance)
                   (and_then
                      (if hasattr worker_instance ''finished''
                       then connect_signal worker_instance
                              (w_name, ''finished'', objectName new_thread, ''quit'')
                       else (Inr (), []))
                      (and_then build_setups_data
                         (and_then
                            (case map_of original_setups_data w_name of
                               None \<Rightarrow> (Inr (), [])
                             | Some signals \<Rightarrow> wire_signals w_name worker_instance signals)
                            (connect_run w_name worker_instance))))
           in (case fst wired of
                 Inl e \<Rightarrow> (Inl e, snd wired)
               | Inr u \<Rightarrow> (Inr (worker_instance, new_thread), snd wired))))"

text \<open>
  The \<^verbatim>\<open>for setup in worker_setups\<close> loop with its \<^verbatim>\<open>except Exception\<close> handler.  After
  a successful \<^verbatim>\<open>try\<close> block the entry is stored and the thread is started unless the
  capability is \<^verbatim>\<open>camera\<close>.  The handler stores the empty entry and notes the failure;
  its call of \<^verbatim>\<open>_update_module_status_icon\<close> only repaints a label.
\<close>

fun setup_loop ::
  "class_bindings \<Rightarrow> (string \<times> py_class) list \<Rightarrow> globals \<times> MainWindow \<Rightarrow> globals \<times> MainWindow" where
  "setup_loop b [] state = state"
| "setup_loop b ((w_name, WorkerClass) # rest) (g, self) =
     (case setup_body b (config self) (robot_info_direct_instance self) w_name WorkerClass of
        (Inr (worker_instance, new_thread), made) \<Rightarrow>
          setup_loop b rest
            (g,
             self\<lparr>connections := connections self @ made,
                  workers :=
                    AList.update w_name
                      \<lparr>worker = Some worker_instance,
                       thread = Some (if w_name \<notin> set [''camera'']
                                      then new_thread\<lparr>isRunning := True\<rparr> else new_thread)\<rparr>
                      (workers self)\<rparr>)
      | (Inl e, made) \<Rightarrow>
          setup_loop b rest
            (g\<lparr>MISSING_MODULES :=
                 note_missing w_name (w_name @ '' (setup_failed)'') (MISSING_MODULES g)\<rparr>,
             self\<lparr>connections := connections self @ made,
                  workers := AList.update w_name \<lparr>worker = None, thread = None\<rparr> (workers self)\<rparr>))"

definition worker_setups :: "class_bindings \<Rightarrow> (string \<times> py_class) list" where
  "worker_setups b =
     [(''emotion'', EmotionWorker_cls b),
      (''tts'', TTSWorker_cls b),
      (''voice_listener'', VoiceListenerWorker_cls b),
      (''nlp'', NLPWorker_cls b),
      (''camera'', CameraWorker_cls),
      (''image_save'', ImageSaveWorker_cls)]"

text \<open>
  \<^verbatim>\<open>if key in self.workers and self.workers[key]["worker"] and hasattr(worker, slot):
  self.<signal>.connect(worker.<slot>)\<close>; connecting to something not callable raises
  \<^verbatim>\<open>TypeError\<close>.
\<close>

definition connect_command :: "MainWindow \<Rightarrow> string \<Rightarrow> string \<Rightarrow> string \<Rightarrow> wiring" where
  "connect_command self signal_name key slot =
     (case map_of (workers self) key of
        None \<Rightarrow> (Inr (), [])
      | Some entry \<Rightarrow>
          (case worker entry of
             None \<Rightarrow> (Inr (), [])
           | Some obj \<Rightarrow>
               (case map_of (attrs obj) slot of
                  None \<Rightarrow> (Inr (), [])
                | Some Data \<Rightarrow> (Inl TypeError, [])
                | Some other \<Rightarrow> (Inr (), [(''MainWindow'', signal_name, key, slot)]))))"

definition setup_workers_and_threads ::
  "class_bindings \<Rightarrow> globals \<times> MainWindow \<Rightarrow> (py_exc + unit) \<times> globals \<times> MainWindow" where
  "setup_workers_and_threads b state =
     (let (g, self) = setup_loop b (worker_setups b) (fst state, (snd state)\<lparr>workers := []\<rparr>);
          commands =
            and_then (connect_command self ''start_nlp_processing'' ''nlp'' ''process_user_input'')
              (and_then (connect_command self ''request_emotion_analysis'' ''emotion'' ''analyze_text_emotion'')
                 (and_then (connect_command self ''stop_tts_signal'' ''tts'' ''stop_speaking'')
                    (connect_command self ''request_camera_filter_change'' ''camera'' ''set_filter'')))
      in (fst commands, g, self\<lparr>connections := connections self @ snd commands\<rparr>))"

subsection \<open>Starting up\<close>

text \<open>
  What \<^verbatim>\<open>_perform_full_initialization\<close> meets: the configuration that \<^verbatim>\<open>_load_config\<close>
  leaves in \<^verbatim>\<open>self.config\<close>, an exception raised by steps 2 to 5 (logging, settings, icons,
  theme) if any, and one raised by \<^verbatim>\<open>_init_ui\<close> if any.
\<close>

record init_env =
  loaded_config :: py_value
  early_failure :: "py_exc option"
  ui_failure :: "py_exc option"

text \<open>
  The routine catches every exception itself: it ends with the window initialised, or
  with the critical message box for the exception caught.
\<close>

datatype init_outcome = Initialized | Initialization_error py_exc

text \<open>
  Step 8 is the call \<^verbatim>\<open>self._setup_workers_and_threads()\<close>: the attribute is looked up on
  the window first, and a name the window lacks raises \<^verbatim>\<open>AttributeError\<close> before
  anything is called.
\<close>

definition perform_full_initialization ::
  "init_env \<Rightarrow> class_bindings \<Rightarrow> globals \<times> MainWindow \<Rightarrow> init_outcome \<times> globals \<times> MainWindow" where
  "perform_full_initialization env b state =
     (let g = fst state;
          self1 = (snd state)\<lparr>config := loaded_config env\<rparr>
      in case early_failure env of
           Some e \<Rightarrow> (Initialization_error e, g, self1)
         | None \<Rightarrow>
             (let self2 = self1\<lparr>robot_info_direct_instance :=
                            (case construct (RobotInfoModule_for_deps b) [] [] of
                               Inr obj \<Rightarrow> VObject obj
                             | Inl e \<Rightarrow>
                                 VObject \<lparr>class_name = ''RobotInfoModule_Dummy'',
                                          attrs = [(''dev_info'', Data), (''robot_info'', Data),
                                                   (''faq_info'', Data), (''get_information'', Callable),
                                                   (''get_robot_info'', Callable),
                                                   (''get_developer_info'', Callable),
                                                   (''log_dummy_call'', Callable)]\<rparr>)\<rparr>
              in case ui_failure env of
                   Some e \<Rightarrow> (Initialization_error e, g, self2)
                 | None \<Rightarrow>
                     (if self_hasattr ''_setup_workers_and_threads''
                      then (case setup_workers_and_threads b (g, self2) of
                              (Inl e, g', self3) \<Rightarrow> (Initialization_error e, g', self3)
                            | (Inr u, g', self3) \<Rightarrow> (Initialized, g', self3))
                      else (Initialization_error AttributeError, g, self2))))"

text \<open>
  Bindings to evaluate with: every external module missing, so every class variable holds
  its dummy; and the same with a \<^verbatim>\<open>TTSWorker\<close> whose constructor raises.
\<close>

definition dummy_bindings :: class_bindings where
  "dummy_bindings =
     \<lparr>EmotionWorker_cls = EmotionWorker_Dummy,
      RobotAppearanceWidget_cls = RobotAppearanceWidget_Dummy,
      TTSWorker_cls = TTSWorker_Dummy,
      VoiceListenerWorker_cls = VoiceListenerWorker_Dummy,
      NLPWorker_cls = NLPWorker_Dummy,
      RobotInfoModule_for_deps = RobotInfoModule_Dummy,
      GrammarSystem_for_deps = GrammarSystem_Dummy,
      MultiLangCorrector_for_deps = MultiLangCorrectionModule_Dummy\<rparr>"

definition failing_class :: "string \<Rightarrow> py_class" where
  "failing_class name = \<lparr>cls_name = name, construct = (\<lambda>args kwargs. Inl OtherException)\<rparr>"

definition broken_tts_bindings :: class_bindings where
  "broken_tts_bindings = dummy_bindings\<lparr>TTSWorker_cls := failing_class ''TTSWorker''\<rparr>"

subsection \<open>Closing the window: stopping the worker threads\<close>

datatype log_level = INFO | WARNING | ERROR

text \<open>
  How a running thread answers \<^verbatim>\<open>quit()\<close> and \<^verbatim>\<open>terminate()\<close>: it finishes within the
  first wait, or only after \<^verbatim>\<open>terminate()\<close> within the second wait, or within neither.
\<close>

datatype thread_reaction = Quits | Dies_on_terminate | Survives

text \<open>
  What the loop of \<^verbatim>\<open>closeEvent\<close> does.  \<open>Wait t ms done\<close> is \<^verbatim>\<open>thread.wait(ms)\<close> on the
  thread named \<open>t\<close>: the only call that blocks, for at most \<open>ms\<close> milliseconds, answering
  whether the thread finished.  \<open>Invoke w m\<close> queues method \<open>m\<close> on the worker of
  capability \<open>w\<close> and returns at once, as \<^verbatim>\<open>quit()\<close> and \<^verbatim>\<open>terminate()\<close> do.
\<close>

datatype shutdown_action =
    Invoke string string
  | Quit string
  | Wait string nat bool
  | Terminate string
  | Log log_level string

text \<open>A name between single quotes, as the log messages print it.\<close>

definition quoted :: "string \<Rightarrow> string" where
  "quoted name = [CHR 0x27] @ name @ [CHR 0x27]"

text \<open>
  \<^verbatim>\<open>QMetaObject.invokeMethod(obj, name, Qt.QueuedConnection)\<close> finds the method through
  Qt's meta-object, which knows the signals and the methods decorated with
  \<^verbatim>\<open>@pyqtSlot\<close>; for any other name the call fails and PyQt raises \<^verbatim>\<open>RuntimeError\<close>.
\<close>

definition invokable :: "py_object \<Rightarrow> string \<Rightarrow> bool" where
  "invokable obj name =
     (case map_of (attrs obj) name of Some Slot \<Rightarrow> True | Some Signal \<Rightarrow> True | other \<Rightarrow> False)"

text \<open>
  One pass of the loop of \<^verbatim>\<open>closeEvent\<close>: what it does, and the exception that ends it if
  one is raised.  Nothing in the loop catches an exception.
\<close>

definition stop_worker ::
  "(string \<Rightarrow> thread_reaction) \<Rightarrow> string \<times> worker_entry \<Rightarrow> shutdown_action list \<times> py_exc option" where
  "stop_worker reaction item =
     (let worker_name = fst item; worker_data = snd item;
          request =
            (case worker worker_data of
               Some worker_instance \<Rightarrow>
                 if hasattr worker_instance ''shutdown''
                 then (if invokable worker_instance ''shutdown''
                       then ([Log INFO (''Calling shutdown() on '' @ quoted worker_name @ '' worker.''),
                              Invoke worker_name ''shutdown''], None)
                       else ([Log INFO (''Calling shutdown() on '' @ quoted worker_name @ '' worker.'')],
                             Some RuntimeError))
                 else if hasattr worker_instance ''stop''
                 then (if invokable worker_instance ''stop''
                       then ([Log INFO (''Calling stop() on '' @ quoted worker_name @ '' worker.''),
                              Invoke worker_name ''stop''], None)
                       else ([Log INFO (''Calling stop() on '' @ quoted worker_name @ '' worker.'')],
                             Some RuntimeError))
                 else ([Log WARNING (''Worker '' @ quoted worker_name
                                      @ '' has no shutdown() or stop() method.'')], None)
             | None \<Rightarrow>
                 ([Log WARNING (''No worker instance found for '' @ quoted worker_name
                                 @ '' during shutdown.'')], None))
      in case snd request of
           Some e \<Rightarrow> request
         | None \<Rightarrow>
             (fst request
              @ (case thread worker_data of
                   Some t \<Rightarrow>
                     if isRunning t
                     then [Log INFO (''Requesting thread '' @ quoted (objectName t) @ '' for worker ''
                                      @ quoted worker_name @ '' to quit...''),
                           Quit (objectName t),
                           Wait (objectName t) 2500 (reaction (objectName t) = Quits)]
                          @ (if \<not> (reaction (objectName t) = Quits)
                             then [Log WARNING (''Thread '' @ quoted (objectName t)
                                                 @ '' did not quit gracefully. Terminating...''),
                                   Terminate (objectName t),
                                   Wait (objectName t) 1000 (reaction (objectName t) \<noteq> Survives)]
                                  @ (if \<not> (reaction (objectName t) \<noteq> Survives)
                                     then [Log ERROR (''Thread '' @ quoted (objectName t)
                                                       @ '' failed to terminate.'')]
                                     else [])
                             else [Log INFO (''Thread '' @ quoted (objectName t)
                                              @ '' finished gracefully.'')])
                     else [Log INFO (''Thread '' @ quoted (objectName t) @ '' for ''
                                      @ quoted worker_name
                                      @ '' was not running or already finished.'')]
                 | None \<Rightarrow>
                     [Log WARNING (''No thread object found for '' @ quoted worker_name
                                    @ '' during shutdown.'')]),
              None))"

text \<open>
  \<^verbatim>\<open>for worker_name, worker_data in self.workers.items()\<close>: the passes in order, up to
  the first that raises.
\<close>

fun closeEvent_workers ::
  "(string \<Rightarrow> thread_reaction) \<Rightarrow> (string \<times> worker_entry) list
     \<Rightarrow> shutdown_action list \<times> py_exc option" where
  "closeEvent_workers reaction [] = ([], None)"
| "closeEvent_workers reaction (item # items) =
     (case stop_worker reaction item of
        (actions, Some e) \<Rightarrow> (actions, Some e)
      | (actions, None) \<Rightarrow>
          (case closeEvent_workers reaction items of
             (rest, outcome) \<Rightarrow> (actions @ rest, outcome)))"

text \<open>The longest a call can block, in milliseconds, and the three kinds of call counted below.\<close>

fun blocking_ms :: "shutdown_action \<Rightarrow> nat" where
  "blocking_ms (Wait t ms done) = ms"
| "blocking_ms _ = 0"

fun is_graceful_wait :: "shutdown_action \<Rightarrow> bool" where
  "is_graceful_wait (Wait t ms done) = (ms = 2500)"
| "is_graceful_wait _ = False"

fun is_grace_wait :: "shutdown_action \<Rightarrow> bool" where
  "is_grace_wait (Wait t ms done) = (ms = 1000)"
| "is_grace_wait _ = False"

fun is_terminate :: "shutdown_action \<Rightarrow> bool" where
  "is_terminate (Terminate t) = True"
| "is_terminate _ = False"

text \<open>The calls made on the thread, without the log lines and the queued invocations.\<close>

fun thread_calls :: "shutdown_action list \<Rightarrow> shutdown_action list" where
  "thread_calls [] = []"
| "thread_calls (Log level message # rest) = thread_calls rest"
| "thread_calls (Invoke w m # rest) = thread_calls rest"
| "thread_calls (a # rest) = a # thread_calls rest"

text \<open>
  Six workers of the internal base class, as the setup routine would record them, each
  thread running; and six workers of an external class whose \<^verbatim>\<open>shutdown\<close> is a
  \<^verbatim>\<open>@pyqtSlot\<close>.
\<close>

definition six_running_workers :: "(string \<times> worker_entry) list" where
  "six_running_workers =
     map (\<lambda>name. (name, \<lparr>worker = Some \<lparr>class_name = name, attrs = worker_attrs\<rparr>,
                           thread = Some \<lparr>objectName = name @ ''Thread'', isRunning = True\<rparr>\<rparr>))
       [''emotion'', ''tts'', ''voice_listener'', ''nlp'', ''camera'', ''image_save'']"

definition six_slot_workers :: "(string \<times> worker_entry) list" where
  "six_slot_workers =
     map (\<lambda>name. (name, \<lparr>worker = Some \<lparr>class_name = name,
                                            attrs = [(''shutdown'', Slot), (''finished'', Signal)]\<rparr>,
                           thread = Some \<lparr>objectName = name @ ''Thread'', isRunning = True\<rparr>\<rparr>))
       [''emotion'', ''tts'', ''voice_listener'', ''nlp'', ''camera'', ''image_save'']"

text \<open>
  An OpenCV to evaluate with.  \<^verbatim>\<open>VideoCapture\<close> takes an integer that fits a C \<^verbatim>\<open>int\<close>
  and answers whether that device opens; it takes a string as the name of a file or
  stream, none of which exists; it refuses anything else with \<^verbatim>\<open>cv2.error\<close> (an
  \<^verbatim>\<open>Exception\<close>, \<open>OtherException\<close> here).  \<^verbatim>\<open>cap.set\<close> takes a number.  Below, two such
  environments, without and with devices, and the worker that \<^verbatim>\<open>__init__\<close> builds from an
  empty configuration.
\<close>

definition opencv :: "(int \<Rightarrow> bool) \<Rightarrow> camera_env" where
  "opencv devices =
     \<lparr>CV2_AVAILABLE = True, NUMPY_AVAILABLE = True,
      open_capture = (\<lambda>index.
        case index of
          VInt i \<Rightarrow> if - 2147483648 \<le> i \<and> i \<le> 2147483647 then Inr (devices i)
                    else Inl OtherException
        | VStr path \<Rightarrow> Inr False
        | _ \<Rightarrow> Inl OtherException),
      cap_set = (\<lambda>prop v. case v of VInt i \<Rightarrow> None | VFloat m e \<Rightarrow> None | _ \<Rightarrow> Some TypeError),
      cv2_filter = (\<lambda>name frame. None)\<rparr>"

definition env_no_device :: camera_env where
  "env_no_device = opencv (\<lambda>i. False)"

definition env_device :: camera_env where
  "env_device = opencv (\<lambda>i. True)"

definition default_camera :: CameraWorker where
  "default_camera = CameraWorker_init \<lparr>cfg_camera_index = None, cfg_camera_resolution = None\<rparr>"

section \<open>Stopping a worker\<close>

lemma stop_state: "fst (stop self) = self\<lparr>is_running := False\<rparr>"
  by (simp add: stop_def)

text \<open>
  C9.  Calling \<^verbatim>\<open>stop()\<close> twice leaves a worker in the state one call leaves it in, for the
  internal \<^verbatim>\<open>Worker\<close> base (and so for every subclass record) from any starting state
  and for the dummy base: after the first call the running flag is false, the second call
  changes no field, and neither call emits a signal.
\<close>

theorem stop_idempotent:
  fixes self :: "'a Worker_scheme" and d :: "'b BaseWorkerDummy_scheme"
  shows "fst (stop (fst (stop self))) = fst (stop self)
       \<and> is_running (fst (stop self)) = False
       \<and> snd (stop self) = []
       \<and> snd (stop (fst (stop self))) = []
       \<and> fst (dummy_stop (fst (dummy_stop d))) = fst (dummy_stop d)
       \<and> fst (dummy_stop d) = d
       \<and> snd (dummy_stop d) = []"
  by (simp add: stop_def dummy_stop_def)

section \<open>Selecting a camera filter\<close>

text \<open>
  C10.  \<^verbatim>\<open>set_filter\<close> with a string that is not a key of \<^verbatim>\<open>RAW_CAMERA_FILTERS\<close> returns
  the worker as it was, so the filter selected before stays; with a key of the table it
  sets \<^verbatim>\<open>current_filter_key\<close> to that key and changes no other field.  It emits nothing
  either way.
\<close>

theorem set_filter_frame:
  "(filter_key \<notin> set (map fst RAW_CAMERA_FILTERS) \<longrightarrow> set_filter self filter_key = (self, []))
   \<and> (filter_key \<in> set (map fst RAW_CAMERA_FILTERS) \<longrightarrow>
        set_filter self filter_key = (self\<lparr>current_filter_key := Some filter_key\<rparr>, []))"
  by (auto simp: set_filter_def dict_contains_def map_of_eq_None_iff)

theorem set_filter_frame_witness:
  "''Rainbow'' \<notin> set (map fst RAW_CAMERA_FILTERS)
   \<and> set_filter (CameraWorker_init \<lparr>cfg_camera_index = None, cfg_camera_resolution = None\<rparr>) ''Rainbow''
       = (CameraWorker_init \<lparr>cfg_camera_index = None, cfg_camera_resolution = None\<rparr>, [])
   \<and> ''Blur'' \<in> set (map fst RAW_CAMERA_FILTERS)
   \<and> set_filter (CameraWorker_init \<lparr>cfg_camera_index = None, cfg_camera_resolution = None\<rparr>) ''Blur''
       = ((CameraWorker_init \<lparr>cfg_camera_index = None, cfg_camera_resolution = None\<rparr>)
            \<lparr>current_filter_key := Some ''Blur''\<rparr>, [])"
  using set_filter_frame [of "''Rainbow''" "CameraWorker_init \<lparr>cfg_camera_index = None, cfg_camera_resolution = None\<rparr>"]
        set_filter_frame [of "''Blur''" "CameraWorker_init \<lparr>cfg_camera_index = None, cfg_camera_resolution = None\<rparr>"]
  by (simp add: RAW_CAMERA_FILTERS_def)

section \<open>The run loop of the camera worker\<close>

lemma capture_loop_snapshots:
  "finish_snapshots held (fst (capture_loop env steps self) @ rest) = finish_snapshots held rest"
proof (induction steps arbitrary: self)
  case Nil
  show ?case by simp
next
  case (Cons step steps)
  obtain ret frame stop_requested where step: "step = (ret, frame, stop_requested)"
    by (cases step)
  show ?case
    using Cons.IH
    by (simp add: step Let_def case_prod_beta split: option.splits)
qed

lemma capture_loop_snapshots_nil:
  "finish_snapshots held (fst (capture_loop env steps self)) = []"
  using capture_loop_snapshots [of held env steps self "[]"] by simp

lemma capture_loop_cap:
  "cap (fst (snd (capture_loop env steps self))) = cap self"
proof (induction steps arbitrary: self)
  case Nil
  show ?case by simp
next
  case (Cons step steps)
  obtain ret frame stop_requested where step: "step = (ret, frame, stop_requested)"
    by (cases step)
  show ?case
    using Cons.IH [of "self"] Cons.IH [of "fst (stop self)"]
    by (simp add: step Let_def stop_def case_prod_beta split: option.splits)
qed

lemma set_resolution_events:
  "finish_snapshots held (fst (set_resolution env res) @ rest) = finish_snapshots held rest"
  by (simp add: set_resolution_def split: sum.splits option.splits)

lemma set_resolution_events_nil:
  "finish_snapshots held (fst (set_resolution env res)) = []"
  using set_resolution_events [of held env res "[]"] by simp

text \<open>
  Where \<^verbatim>\<open>run\<close> does what is expected of it.  When OpenCV is missing, or
  \<^verbatim>\<open>VideoCapture\<close> returns a capture that did not open, it emits one \<^verbatim>\<open>error\<close> with the
  worker's name, then \<^verbatim>\<open>finished\<close>, and returns.
\<close>

lemma run_unopened_capture:
  assumes "\<not> CV2_AVAILABLE env \<or> open_capture env (camera_index self) = Inr False"
  shows "emitted (fst (run env steps self))
           = [Error (worker_name self)
                (if \<not> CV2_AVAILABLE env
                 then ''OpenCV (cv2) is not available. Camera cannot operate.''
                 else ''Cannot open camera at index '' @ py_str (camera_index self) @ ''.''),
              Finished]
       \<and> snd (snd (run env steps self)) = Returned"
  using assms by (auto simp: run_def Let_def)

text \<open>
  Whenever \<^verbatim>\<open>finished\<close> is emitted no opened device is held: \<^verbatim>\<open>run\<close> emits it once when
  it returns, after \<^verbatim>\<open>release()\<close> if the device had opened, and not at all otherwise.
\<close>

lemma run_no_open_device_at_finished:
  "finish_snapshots False (fst (run env steps self))
     = (if snd (snd (run env steps self)) = Returned then [False] else [])"
proof (cases "CV2_AVAILABLE env")
  case False
  then show ?thesis by (simp add: run_def)
next
  case True
  show ?thesis
  proof (cases "open_capture env (camera_index self)")
    case (Inl e)
    with True show ?thesis by (simp add: run_def)
  next
    case (Inr opened)
    show ?thesis
    proof (cases opened)
      case False
      with True Inr show ?thesis by (simp add: run_def Let_def)
    next
      case opened: True
      obtain sets failure where sets: "set_resolution env (resolution self) = (sets, failure)"
        by (cases "set_resolution env (resolution self)")
      have quiet: "finish_snapshots held (sets @ rest) = finish_snapshots held rest" for held rest
        using set_resolution_events [of held env "resolution self" rest] by (simp add: sets)
      have quiet_nil: "finish_snapshots held sets = []" for held
        using quiet [of held "[]"] by simp
      show ?thesis
      proof (cases failure)
        case (Some e)
        with True Inr opened sets quiet_nil show ?thesis
          by (simp add: run_def Let_def)
      next
        case None
        with True Inr opened sets show ?thesis
          by (simp add: run_def Let_def case_prod_beta quiet capture_loop_snapshots
                capture_loop_snapshots_nil capture_loop_cap split: option.splits)
      qed
    qed
  qed
qed

text \<open>An exception raised by \<^verbatim>\<open>VideoCapture\<close> leaves \<^verbatim>\<open>run\<close> before anything is emitted.\<close>

lemma run_open_raises:
  assumes "CV2_AVAILABLE env" and "open_capture env (camera_index self) = Inl e"
  shows "run env steps self = ([], self, Raised e)"
  using assms by (simp add: run_def)

text \<open>
  C6, evaluated on the source.  With OpenCV present and the configured index
  2147483648, which is no C \<^verbatim>\<open>int\<close>, \<^verbatim>\<open>cv2.VideoCapture\<close> raises at line 835, outside any
  \<^verbatim>\<open>try\<close>: the device cannot be opened, the exception leaves \<^verbatim>\<open>run\<close>, and neither
  \<^verbatim>\<open>error\<close> nor \<^verbatim>\<open>finished\<close> is emitted.
\<close>

theorem run_bad_index_emits_nothing:
  "run env_no_device []
       (CameraWorker_init \<lparr>cfg_camera_index = Some (VInt 2147483648), cfg_camera_resolution = None\<rparr>)
     = ([],
        CameraWorker_init \<lparr>cfg_camera_index = Some (VInt 2147483648), cfg_camera_resolution = None\<rparr>,
        Raised OtherException)
   \<and> emitted (fst (run env_no_device []
         (CameraWorker_init \<lparr>cfg_camera_index = Some (VInt 2147483648),
                             cfg_camera_resolution = None\<rparr>))) = []"
  by (simp add: run_def env_no_device_def opencv_def CameraWorker_init_def Worker_init_def
        Worker.extend_def CameraWorker.fields_def)

text \<open>
  C5, evaluated on the source.  With a device that opens and the configured resolution
  \<^verbatim>\<open>[]\<close>, \<^verbatim>\<open>self.resolution[0]\<close> raises \<^verbatim>\<open>IndexError\<close> at line 843, after the open and
  outside any \<^verbatim>\<open>try\<close>: \<^verbatim>\<open>run\<close> ends with the device opened and held in \<^verbatim>\<open>self.cap\<close>,
  \<^verbatim>\<open>release()\<close> is never called and \<^verbatim>\<open>finished\<close> is never emitted.
\<close>

theorem run_bad_resolution_keeps_device:
  "run env_device [(True, [1], False), (False, [], False)]
       (CameraWorker_init \<lparr>cfg_camera_index = None, cfg_camera_resolution = Some []\<rparr>)
     = ([Cap_create (VInt 0) True],
        (CameraWorker_init \<lparr>cfg_camera_index = None, cfg_camera_resolution = Some []\<rparr>)
          \<lparr>cap := Some \<lparr>cap_index = VInt 0, isOpened = True\<rparr>\<rparr>,
        Raised IndexError)"
  by (simp add: run_def set_resolution_def py_index_def env_device_def opencv_def
        CameraWorker_init_def Worker_init_def Worker.extend_def CameraWorker.fields_def
        DEFAULT_CAMERA_INDEX_def)

text \<open>The same worker with the default resolution releases the device before \<^verbatim>\<open>finished\<close>.\<close>

lemma run_default_releases:
  "fst (run env_device [(True, [1], False), (False, [], False)] default_camera)
     = [Cap_create (VInt 0) True,
        Cap_set ''CAP_PROP_FRAME_WIDTH'' (VInt 640), Cap_set ''CAP_PROP_FRAME_HEIGHT'' (VInt 480),
        Emit (Status_update ''Camera stream started.'' 2000),
        Cap_read, Emit (Frame_ready [1]), Msleep 30, Cap_read,
        Cap_release, Emit (Status_update ''Camera stream stopped.'' 2000), Emit Finished]"
  by (simp add: run_def set_resolution_def py_index_def env_device_def opencv_def
        default_camera_def CameraWorker_init_def Worker_init_def Worker.extend_def
        CameraWorker.fields_def DEFAULT_CAMERA_INDEX_def DEFAULT_CAMERA_RESOLUTION_def
        RAW_DEFAULT_CAMERA_FILTER_def Let_def)

section \<open>Resolving the external modules\<close>

lemma import_items_found:
  "snd (import_items m items (d, ok)) = (ok \<and> (\<forall>i\<in>set items. m i \<noteq> None))"
  by (induction items arbitrary: d ok) (auto split: option.splits)

lemma note_missing_has_hint:
  "\<exists>entry\<in>set (note_missing hint (hint @ tail_text) missing). prefix hint entry"
  by (auto simp: note_missing_def)

text \<open>
  C7.  When the module loads and a requested member is absent, \<^verbatim>\<open>_try_import\<close> returns
  \<^verbatim>\<open>(None, False)\<close> whatever else was found, clears \<^verbatim>\<open>MODULE_IMPORTS_OK\<close>, and the
  missing-modules list holds an entry for the file hint: the hint followed by
  \<^verbatim>\<open>(item missing within module)\<close> is appended, unless the bare hint is listed already.
  Conversely a dictionary, or \<^verbatim>\<open>True\<close>, is returned only when the module loaded and
  every requested member is present on it.
\<close>

theorem try_import_all_or_nothing:
  "(import_module name = Module m \<and> (\<exists>i\<in>set items. m i = None) \<longrightarrow>
      fst (try_import import_module name items hint g) = (None, False)
      \<and> \<not> MODULE_IMPORTS_OK (snd (try_import import_module name items hint g))
      \<and> MISSING_MODULES (snd (try_import import_module name items hint g))
          = (if hint \<in> set (MISSING_MODULES g) then MISSING_MODULES g
             else MISSING_MODULES g @ [hint @ '' (item missing within module)''])
      \<and> (\<exists>entry\<in>set (MISSING_MODULES (snd (try_import import_module name items hint g))).
            prefix hint entry))
   \<and> (fst (fst (try_import import_module name items hint g)) \<noteq> None
        \<or> snd (fst (try_import import_module name items hint g)) \<longrightarrow>
        (\<exists>m'. import_module name = Module m' \<and> (\<forall>i\<in>set items. m' i \<noteq> None)))"
proof -
  have found: "snd (import_items m' items ([], True)) = (\<forall>i\<in>set items. m' i \<noteq> None)" for m'
    by (simp add: import_items_found)
  show ?thesis
  proof (cases "import_module name")
    case (Module m')
    then show ?thesis
      using found [of m']
        note_missing_has_hint [of hint "'' (item missing within module)''" "MISSING_MODULES g"]
      by (auto simp: try_import_def Let_def case_prod_beta note_missing_def)
  next
    case (Raises e)
    then show ?thesis
      by (simp add: try_import_def)
  qed
qed

theorem try_import_all_or_nothing_witness:
  "example_importer ''emotion_engine''
     = Module [''EmotionWorker'' \<mapsto> Class (external_class ''EmotionWorker'')]
   \<and> [''EmotionWorker'' \<mapsto> Class (external_class ''EmotionWorker'')] ''EmotionHelper'' = None
   \<and> try_import example_importer ''emotion_engine'' [''EmotionWorker'', ''EmotionHelper'']
        ''emotion_engine.py'' initial_globals
       = ((None, False),
          \<lparr>MODULE_IMPORTS_OK = False,
           MISSING_MODULES = [''emotion_engine.py (item missing within module)'']\<rparr>)
   \<and> fst (try_import example_importer ''emotion_engine'' [''EmotionWorker'']
        ''emotion_engine.py'' initial_globals)
       = (Some [(''EmotionWorker'', Class (external_class ''EmotionWorker''))], True)"
  using try_import_all_or_nothing
          [of example_importer "''emotion_engine''"
              "[''EmotionWorker'' \<mapsto> Class (external_class ''EmotionWorker'')]"
              "[''EmotionWorker'', ''EmotionHelper'']" "''emotion_engine.py''" initial_globals]
        try_import_all_or_nothing
          [of example_importer "''emotion_engine''"
              "[''EmotionWorker'' \<mapsto> Class (external_class ''EmotionWorker'')]"
              "[''EmotionWorker'']" "''emotion_engine.py''" initial_globals]
  by (simp add: example_importer_def initial_globals_def try_import_def note_missing_def)

lemma resolve_member:
  "fst (resolve import_module c g) = Inr (resolved_member import_module c)"
  by (simp add: resolve_def resolved_member_def try_import_def bind_cls_def Let_def
           split: import_result.splits option.splits)

lemma resolve_all_members:
  "fst (resolve_all import_module cs g) = Inr (map (resolved_member import_module) cs)"
proof (induction cs arbitrary: g)
  case Nil
  show ?case by simp
next
  case (Cons c cs)
  obtain r g' where r: "resolve import_module c g = (r, g')"
    by (cases "resolve import_module c g")
  with resolve_member [of import_module c g] have r': "r = Inr (resolved_member import_module c)"
    by simp
  obtain rs g'' where rs: "resolve_all import_module cs g' = (rs, g'')"
    by (cases "resolve_all import_module cs g'")
  with Cons.IH [of g'] have "rs = Inr (map (resolved_member import_module) cs)"
    by simp
  with r r' rs show ?case by simp
qed

lemma class_names_of_classes:
  "class_names (map Class classes) = Inr (map cls_name classes)"
  by (induction classes) (simp_all add: dunder_name_def)

lemma load_external_modules_result:
  "fst (load_external_modules import_module g)
     = (case class_names (map (resolved_member import_module) registry) of
          Inl e \<Rightarrow> Inl e
        | Inr names \<Rightarrow> Inr (map (resolved_member import_module) registry))"
proof -
  obtain r g' where r: "resolve_all import_module registry g = (r, g')"
    by (cases "resolve_all import_module registry g")
  with resolve_all_members [of import_module registry g]
  have "r = Inr (map (resolved_member import_module) registry)"
    by simp
  with r show ?thesis
    by (simp add: load_external_modules_def split: sum.splits)
qed

text \<open>
  Where the module body does what is expected of it.  The eight bindings themselves never
  raise: each variable gets the member the module offers, else its dummy class.  When
  every member offered is a class, the summary passes too and the module body ends with
  eight classes bound, each the real one or the dummy.
\<close>

lemma resolution_total_for_classes:
  assumes "map (resolved_member import_module) registry = map Class classes"
  shows "fst (load_external_modules import_module g) = Inr (map Class classes)"
  using assms by (simp add: load_external_modules_result class_names_of_classes)

lemma resolution_example:
  "fst (load_external_modules example_importer initial_globals)
     = Inr (map Class
         [external_class ''EmotionWorker'', RobotAppearanceWidget_Dummy, TTSWorker_Dummy,
          VoiceListenerWorker_Dummy, NLPWorker_Dummy, RobotInfoModule_Dummy,
          GrammarSystem_Dummy, MultiLangCorrectionModule_Dummy])"
  by (rule resolution_total_for_classes)
     (simp add: registry_def resolved_member_def example_importer_def)

text \<open>
  C2, evaluated on the source.  With \<^verbatim>\<open>emotion_engine.py\<close> installed and containing
  \<^verbatim>\<open>EmotionWorker = None\<close>, \<^verbatim>\<open>hasattr\<close> finds the member, so \<^verbatim>\<open>_try_import\<close> returns the
  dictionary and \<^verbatim>\<open>True\<close>; line 660 binds \<^verbatim>\<open>EmotionWorker_cls\<close> to \<^verbatim>\<open>None\<close>, neither the
  real class nor the dummy; and line 694 raises \<^verbatim>\<open>AttributeError\<close>, which nothing
  catches: the exception leaves the resolution and ends the import of the application.
\<close>

theorem plain_member_ends_the_import:
  "try_import none_member_importer ''emotion_engine'' [''EmotionWorker''] ''emotion_engine.py''
       initial_globals
     = ((Some [(''EmotionWorker'', Plain VNone)], True), initial_globals)
   \<and> fst (resolve none_member_importer
            \<lparr>import_name = ''emotion_engine'', import_item = ''EmotionWorker'',
             import_hint = ''emotion_engine.py'', fallback = EmotionWorker_Dummy\<rparr> initial_globals)
       = Inr (Plain VNone)
   \<and> fst (load_external_modules none_member_importer initial_globals) = Inl AttributeError"
proof -
  have "class_names (map (resolved_member none_member_importer) registry) = Inl AttributeError"
    by (simp add: registry_def resolved_member_def none_member_importer_def dunder_name_def)
  then have "fst (load_external_modules none_member_importer initial_globals) = Inl AttributeError"
    by (simp add: load_external_modules_result)
  then show ?thesis
    by (simp add: try_import_def none_member_importer_def resolve_def bind_cls_def Let_def)
qed

section \<open>Speaking with the dummy text-to-speech worker\<close>

lemma word_timers_bounds:
  "\<forall>t\<in>set (word_timers i p ws). i * 200 + 100 \<le> fst t \<and> fst t < (i + int (length ws)) * 200"
proof (induction ws arbitrary: i p)
  case Nil
  show ?case by simp
next
  case (Cons w ws)
  have rest: "\<forall>t\<in>set (word_timers (i + 1) (p + int (length w) + 1) ws).
                (i + 1) * 200 + 100 \<le> fst t \<and> fst t < (i + 1 + int (length ws)) * 200"
    using Cons.IH [of "i + 1" "p + int (length w) + 1"] .
  show ?case
  proof
    fix t assume "t \<in> set (word_timers i p (w # ws))"
    then consider "t = (i * 200 + 200 div 2, Speech_word_boundary w p (int (length w)))"
      | "t \<in> set (word_timers (i + 1) (p + int (length w) + 1) ws)"
      by auto
    then show "i * 200 + 100 \<le> fst t \<and> fst t < (i + int (length (w # ws))) * 200"
    proof cases
      case 1
      then show ?thesis by (simp add: algebra_simps)
    next
      case 2
      with rest have "(i + 1) * 200 + 100 \<le> fst t \<and> fst t < (i + 1 + int (length ws)) * 200"
        by blast
      then show ?thesis by (simp add: algebra_simps)
    qed
  qed
qed

lemma word_timers_sorted: "sorted (map fst (word_timers i p ws))"
proof (induction ws arbitrary: i p)
  case Nil
  show ?case by simp
next
  case (Cons w ws)
  have "\<forall>t\<in>set (word_timers (i + 1) (p + int (length w) + 1) ws). i * 200 + 100 \<le> fst t"
    using word_timers_bounds [of "i + 1" "p + int (length w) + 1" ws] by fastforce
  with Cons.IH show ?case by simp
qed

lemma word_timers_boundary:
  "\<forall>t\<in>set (word_timers i p ws). \<exists>w pos len. snd t = Speech_word_boundary w pos len"
  by (induction ws arbitrary: i p) auto

lemma speak_timers_sorted:
  "sorted (map fst (word_timers 0 0 ws @ [(int (length ws) * 200 + 200, s)]))"
  using word_timers_bounds [of 0 0 ws] word_timers_sorted [of 0 0 ws]
  by (fastforce simp: sorted_append)

text \<open>
  C8.  For every text, so for every non-empty one, \<^verbatim>\<open>speak(text)\<close> on the dummy worker
  emits \<^verbatim>\<open>speech_started(text)\<close> at once and starts one timer per word and one for
  \<^verbatim>\<open>speech_finished(text)\<close>, whose delay is larger than that of every word timer.  What
  the main window sees is \<^verbatim>\<open>speech_started(text)\<close>, then the word boundaries, then
  \<^verbatim>\<open>speech_finished(text)\<close> last: the pair a consumer waits for always arrives, in
  that order.
\<close>

theorem speak_started_then_finished:
  "speak_trace self text
     = Speech_started text # map snd (word_timers 0 0 (py_split text)) @ [Speech_finished text]
   \<and> (\<forall>s\<in>set (map snd (word_timers 0 0 (py_split text))).
         \<exists>w pos len. s = Speech_word_boundary w pos len)
   \<and> (int (length (py_split text)) * 200 + 200, Speech_finished text)
        \<in> set (snd (snd (speak self text)))
   \<and> (\<forall>t\<in>set (word_timers 0 0 (py_split text)).
         fst t < int (length (py_split text)) * 200 + 200)"
  using word_timers_bounds [of 0 0 "py_split text"] word_timers_boundary [of 0 0 "py_split text"]
    sort_key_id_if_sorted [OF speak_timers_sorted [of "py_split text" "Speech_finished text"]]
  by (auto simp: speak_trace_def speak_def event_loop_def Let_def)

theorem speak_started_then_finished_witness:
  "''hello'' \<noteq> []
   \<and> speak_trace (BaseWorkerDummy_init ''TTSWorkerDummy'') ''hello''
       = [Speech_started ''hello'', Speech_word_boundary ''hello'' 0 5, Speech_finished ''hello'']
   \<and> snd (snd (speak (BaseWorkerDummy_init ''TTSWorkerDummy'') ''hello''))
       = [(100, Speech_word_boundary ''hello'' 0 5), (400, Speech_finished ''hello'')]"
  using speak_started_then_finished [of "BaseWorkerDummy_init ''TTSWorkerDummy''" "''hello''"]
  by (simp add: py_split_def is_space_def speak_def)

section \<open>Stopping the worker threads when the window closes\<close>

lemma stop_worker_counts:
  "length (filter is_graceful_wait (fst (stop_worker reaction item))) \<le> 1
   \<and> length (filter is_grace_wait (fst (stop_worker reaction item))) \<le> 1
   \<and> length (filter is_terminate (fst (stop_worker reaction item))) \<le> 1
   \<and> sum_list (map blocking_ms (fst (stop_worker reaction item))) \<le> 3500"
  by (simp add: stop_worker_def Let_def split: option.splits)

text \<open>
  Where the loop does what is expected of it.  It never blocks without bound: whatever
  the threads do and however the loop ends, it has made at most one wait of 2500 ms, one
  \<^verbatim>\<open>terminate()\<close> and one wait of 1000 ms per entry.
\<close>

lemma closeEvent_waits_bounded:
  "length (filter is_graceful_wait (fst (closeEvent_workers reaction ws))) \<le> length ws
   \<and> length (filter is_grace_wait (fst (closeEvent_workers reaction ws))) \<le> length ws
   \<and> length (filter is_terminate (fst (closeEvent_workers reaction ws))) \<le> length ws
   \<and> sum_list (map blocking_ms (fst (closeEvent_workers reaction ws))) \<le> 3500 * length ws"
proof (induction ws)
  case Nil
  show ?case by simp
next
  case (Cons item ws)
  obtain actions outcome where item: "stop_worker reaction item = (actions, outcome)"
    by (cases "stop_worker reaction item")
  obtain rest final where rest: "closeEvent_workers reaction ws = (rest, final)"
    by (cases "closeEvent_workers reaction ws")
  show ?case
    using Cons.IH stop_worker_counts [of reaction item]
    by (cases outcome) (simp_all add: item rest)
qed

lemma stop_worker_survivor:
  "invokable w ''shutdown'' \<Longrightarrow>
   thread_calls (fst (stop_worker (\<lambda>t. Survives)
       (n, \<lparr>worker = Some w, thread = Some \<lparr>objectName = tn, isRunning = True\<rparr>\<rparr>)))
     = [Quit tn, Wait tn 2500 False, Terminate tn, Wait tn 1000 False]
   \<and> snd (stop_worker (\<lambda>t. Survives)
       (n, \<lparr>worker = Some w, thread = Some \<lparr>objectName = tn, isRunning = True\<rparr>\<rparr>)) = None"
  by (auto simp: stop_worker_def Let_def invokable_def hasattr_def dict_contains_def
           split: option.splits)

text \<open>
  With workers whose \<^verbatim>\<open>shutdown\<close> is a slot and threads that never finish, the loop goes
  through all six entries and returns.
\<close>

lemma closeEvent_slot_workers:
  "snd (closeEvent_workers (\<lambda>t. Survives) six_slot_workers) = None
   \<and> thread_calls (fst (closeEvent_workers (\<lambda>t. Survives) (take 1 six_slot_workers)))
       = [Quit ''emotionThread'', Wait ''emotionThread'' 2500 False,
          Terminate ''emotionThread'', Wait ''emotionThread'' 1000 False]"
proof -
  have inv: "invokable \<lparr>class_name = n, attrs = [(''shutdown'', Slot), (''finished'', Signal)]\<rparr>
               ''shutdown''" for n
    by (simp add: invokable_def)
  have one: "snd (stop_worker (\<lambda>t. Survives)
       (n, \<lparr>worker = Some \<lparr>class_name = n, attrs = [(''shutdown'', Slot), (''finished'', Signal)]\<rparr>,
            thread = Some \<lparr>objectName = tn, isRunning = True\<rparr>\<rparr>)) = None" for n tn
    using stop_worker_survivor [OF inv] by blast
  have calls: "thread_calls (fst (stop_worker (\<lambda>t. Survives)
       (n, \<lparr>worker = Some \<lparr>class_name = n, attrs = [(''shutdown'', Slot), (''finished'', Signal)]\<rparr>,
            thread = Some \<lparr>objectName = tn, isRunning = True\<rparr>\<rparr>)))
     = [Quit tn, Wait tn 2500 False, Terminate tn, Wait tn 1000 False]" for n tn
    using stop_worker_survivor [OF inv] by blast
  show ?thesis
    by (simp add: six_slot_workers_def case_prod_beta one calls)
qed

text \<open>
  C4, evaluated on the source.  With the six workers of the internal base class recorded,
  the first pass of the loop finds \<^verbatim>\<open>shutdown\<close> on the worker and calls
  \<^verbatim>\<open>QMetaObject.invokeMethod\<close> for it at line 3231; \<^verbatim>\<open>shutdown\<close> is not a
  \<^verbatim>\<open>@pyqtSlot\<close>, so the call raises \<^verbatim>\<open>RuntimeError\<close>, outside any \<^verbatim>\<open>try\<close>.  The loop is
  left there: no \<^verbatim>\<open>quit()\<close>, no wait and no \<^verbatim>\<open>terminate()\<close> is made on any thread, and
  \<^verbatim>\<open>closeEvent\<close> does not return.
\<close>

theorem closeEvent_raises_on_plain_shutdown:
  "closeEvent_workers (\<lambda>t. Survives) six_running_workers
     = ([Log INFO (''Calling shutdown() on '' @ quoted ''emotion'' @ '' worker.'')],
        Some RuntimeError)"
  by (simp add: six_running_workers_def stop_worker_def Let_def hasattr_def dict_contains_def
        invokable_def worker_attrs_def qobject_attrs_def)

section \<open>Setting up the workers\<close>

lemma setup_loop_reads:
  "config (snd (setup_loop b setups (g, self))) = config self
   \<and> robot_info_direct_instance (snd (setup_loop b setups (g, self))) = robot_info_direct_instance self"
proof (induction setups arbitrary: g self)
  case Nil
  show ?case by simp
next
  case (Cons a setups)
  obtain m c where a: "a = (m, c)" by (cases a)
  show ?case
    by (simp add: a Cons.IH split: prod.splits sum.splits)
qed

lemma setup_loop_other:
  "n \<notin> fst ` set setups \<Longrightarrow>
   map_of (workers (snd (setup_loop b setups (g, self)))) n = map_of (workers self) n"
proof (induction setups arbitrary: g self)
  case Nil
  show ?case by simp
next
  case (Cons a setups)
  obtain m c where a: "a = (m, c)" by (cases a)
  from Cons.prems a have "n \<noteq> m" "n \<notin> fst ` set setups" by auto
  then show ?case
    by (simp add: a Cons.IH update_conv' split: prod.splits sum.splits)
qed

lemma setup_body_thread:
  "fst (setup_body b cfg ri n cls) = Inr (w, t) \<Longrightarrow> t = \<lparr>objectName = n @ ''Thread'', isRunning = False\<rparr>"
  by (auto simp: setup_body_def Let_def split: sum.splits)

lemma setup_loop_entry:
  assumes "distinct (map fst setups)" and "(n, cls) \<in> set setups"
  shows "map_of (workers (snd (setup_loop b setups (g, self)))) n
           = Some (case fst (setup_body b (config self) (robot_info_direct_instance self) n cls) of
                     Inl e \<Rightarrow> \<lparr>worker = None, thread = None\<rparr>
                   | Inr (w, t) \<Rightarrow>
                       \<lparr>worker = Some w,
                        thread = Some \<lparr>objectName = n @ ''Thread'', isRunning = (n \<noteq> ''camera'')\<rparr>\<rparr>)"
  using assms
proof (induction setups arbitrary: g self)
  case Nil
  then show ?case by simp
next
  case (Cons a setups)
  obtain m c where a: "a = (m, c)" by (cases a)
  show ?case
  proof (cases "n = m")
    case True
    with Cons.prems a have cls: "cls = c" and fresh: "n \<notin> fst ` set setups"
      by (auto simp: image_iff)
    obtain r made where body: "setup_body b (config self) (robot_info_direct_instance self) m c = (r, made)"
      by (cases "setup_body b (config self) (robot_info_direct_instance self) m c")
    show ?thesis
    proof (cases r)
      case (Inl e)
      with body True cls fresh a show ?thesis
        by (simp add: setup_loop_other update_conv')
    next
      case (Inr wt)
      obtain w t where wt: "wt = (w, t)" by (cases wt)
      from body Inr wt have "fst (setup_body b (config self) (robot_info_direct_instance self) m c) = Inr (w, t)"
        by simp
      from setup_body_thread [OF this] have t: "t = \<lparr>objectName = m @ ''Thread'', isRunning = False\<rparr>" .
      from body Inr wt t True cls fresh a show ?thesis
        by (simp add: setup_loop_other update_conv')
    qed
  next
    case False
    with Cons.prems a have tail: "(n, cls) \<in> set setups" and d: "distinct (map fst setups)"
      by auto
    show ?thesis
      using Cons.IH [OF d tail]
      by (simp add: a split: prod.splits sum.splits)
  qed
qed

lemma note_missing_subset: "set missing \<subseteq> set (note_missing h e missing)"
  by (auto simp: note_missing_def)

lemma setup_loop_missing_mono:
  "set (MISSING_MODULES g) \<subseteq> set (MISSING_MODULES (fst (setup_loop b setups (g, self))))"
proof (induction setups arbitrary: g self)
  case Nil
  show ?case by simp
next
  case (Cons a setups)
  obtain m c where a: "a = (m, c)" by (cases a)
  obtain r made where body: "setup_body b (config self) (robot_info_direct_instance self) m c = (r, made)"
    by (cases "setup_body b (config self) (robot_info_direct_instance self) m c")
  show ?case
  proof (cases r)
    case (Inl e)
    let ?g = "g\<lparr>MISSING_MODULES := note_missing m (m @ '' (setup_failed)'') (MISSING_MODULES g)\<rparr>"
    have "set (MISSING_MODULES g) \<subseteq> set (MISSING_MODULES ?g)"
      using note_missing_subset by simp
    also have "\<dots> \<subseteq> set (MISSING_MODULES (fst (setup_loop b (a # setups) (g, self))))"
      using Cons.IH [of ?g] by (simp add: a body Inl)
    finally show ?thesis .
  next
    case (Inr wt)
    then show ?thesis
      using Cons.IH [of g] by (simp add: a body split: prod.splits)
  qed
qed

lemma setup_loop_missing_failed:
  assumes "(n, cls) \<in> set setups"
    and "fst (setup_body b (config self) (robot_info_direct_instance self) n cls) = Inl e"
  shows "n @ '' (setup_failed)'' \<in> set (MISSING_MODULES (fst (setup_loop b setups (g, self))))
         \<or> n \<in> set (MISSING_MODULES g)
         \<or> (\<exists>m\<in>fst ` set setups. n = m @ '' (setup_failed)'')"
  using assms
proof (induction setups arbitrary: g self)
  case Nil
  then show ?case by simp
next
  case (Cons a setups)
  obtain m c where a: "a = (m, c)" by (cases a)
  obtain r made where body: "setup_body b (config self) (robot_info_direct_instance self) m c = (r, made)"
    by (cases "setup_body b (config self) (robot_info_direct_instance self) m c")
  show ?case
  proof (cases "(n, cls) = (m, c)")
    case True
    with Cons.prems body have r: "r = Inl e" by simp
    let ?g = "g\<lparr>MISSING_MODULES := note_missing m (m @ '' (setup_failed)'') (MISSING_MODULES g)\<rparr>"
    have step: "setup_loop b (a # setups) (g, self)
                 = setup_loop b setups (?g, self\<lparr>connections := connections self @ made,
                      workers := AList.update m \<lparr>worker = None, thread = None\<rparr> (workers self)\<rparr>)"
      by (simp add: a body r)
    have "n @ '' (setup_failed)'' \<in> set (MISSING_MODULES ?g) \<or> n \<in> set (MISSING_MODULES g)"
      using True by (auto simp: note_missing_def)
    then show ?thesis
      using setup_loop_missing_mono [of ?g b setups] unfolding step by auto
  next
    case False
    with Cons.prems a have tail: "(n, cls) \<in> set setups" by auto
    show ?thesis
    proof (cases r)
      case (Inl e')
      let ?g = "g\<lparr>MISSING_MODULES := note_missing m (m @ '' (setup_failed)'') (MISSING_MODULES g)\<rparr>"
      let ?s = "self\<lparr>connections := connections self @ made,
                      workers := AList.update m \<lparr>worker = None, thread = None\<rparr> (workers self)\<rparr>"
      have step: "setup_loop b (a # setups) (g, self) = setup_loop b setups (?g, ?s)"
        by (simp add: a body Inl)
      have "fst (setup_body b (config ?s) (robot_info_direct_instance ?s) n cls) = Inl e"
        using Cons.prems(2) by simp
      from Cons.IH [OF tail this, of ?g]
      have "n @ '' (setup_failed)'' \<in> set (MISSING_MODULES (fst (setup_loop b setups (?g, ?s))))
            \<or> n \<in> set (MISSING_MODULES ?g)
            \<or> (\<exists>m\<in>fst ` set setups. n = m @ '' (setup_failed)'')" .
      moreover have "n \<in> set (MISSING_MODULES ?g) \<Longrightarrow> n \<in> set (MISSING_MODULES g) \<or> n = m @ '' (setup_failed)''"
        by (auto simp: note_missing_def split: if_splits)
      ultimately show ?thesis
        unfolding step using a by auto
    next
      case (Inr wt)
      obtain w t where wt: "wt = (w, t)" by (cases wt)
      let ?s = "self\<lparr>connections := connections self @ made,
                  workers := AList.update m \<lparr>worker = Some w,
                       thread = Some (if m \<notin> set [''camera''] then t\<lparr>isRunning := True\<rparr> else t)\<rparr>
                      (workers self)\<rparr>"
      have step: "setup_loop b (a # setups) (g, self) = setup_loop b setups (g, ?s)"
        by (simp add: a body Inr wt)
      have "fst (setup_body b (config ?s) (robot_info_direct_instance ?s) n cls) = Inl e"
        using Cons.prems(2) by simp
      from Cons.IH [OF tail this, of g] show ?thesis
        unfolding step by auto
    qed
  qed
qed

lemma worker_setups_names:
  "map fst (worker_setups b) = [''emotion'', ''tts'', ''voice_listener'', ''nlp'', ''camera'', ''image_save'']"
  by (simp add: worker_setups_def)

text \<open>
  Once the loop has run, every capability of \<^verbatim>\<open>worker_setups\<close> has an entry in
  \<^verbatim>\<open>self.workers\<close>, with a worker or without.
\<close>

lemma setup_loop_records_all:
  assumes "n \<in> set (map fst (worker_setups b))"
  shows "map_of (workers (snd (setup_loop b (worker_setups b) (g, self)))) n \<noteq> None"
proof -
  from assms obtain cls where mem: "(n, cls) \<in> set (worker_setups b)"
    by auto
  have d: "distinct (map fst (worker_setups b))"
    by (simp add: worker_setups_names)
  show ?thesis
    using setup_loop_entry [OF d mem, of b g self] by simp
qed

text \<open>
  C3, as the source has it.  For each of the six capabilities of \<^verbatim>\<open>worker_setups\<close> the entry
  left in \<^verbatim>\<open>self.workers\<close> is decided by that capability's own \<^verbatim>\<open>try\<close> block alone,
  whatever happened to the others.  If the block raised, the entry has no worker and no
  thread and the name followed by \<^verbatim>\<open>(setup_failed)\<close> is in the missing-modules list
  (unless the bare name was listed before).  If it did not raise, the entry holds the
  worker and its thread, and the thread has been started, except for \<^verbatim>\<open>camera\<close>, whose
  thread is created and left unstarted.
\<close>

theorem setup_failure_isolated:
  "(n, cls) \<in> set (worker_setups b) \<longrightarrow>
     (case fst (setup_body b (config self) (robot_info_direct_instance self) n cls) of
        Inl e \<Rightarrow>
          map_of (workers (snd (setup_loop b (worker_setups b) (g, self)))) n
            = Some \<lparr>worker = None, thread = None\<rparr>
          \<and> (n @ '' (setup_failed)'' \<in> set (MISSING_MODULES (fst (setup_loop b (worker_setups b) (g, self))))
              \<or> n \<in> set (MISSING_MODULES g))
      | Inr (w, t) \<Rightarrow>
          map_of (workers (snd (setup_loop b (worker_setups b) (g, self)))) n
            = Some \<lparr>worker = Some w,
                    thread = Some \<lparr>objectName = n @ ''Thread'', isRunning = (n \<noteq> ''camera'')\<rparr>\<rparr>)"
proof
  assume mem: "(n, cls) \<in> set (worker_setups b)"
  have d: "distinct (map fst (worker_setups b))"
    by (simp add: worker_setups_names)
  note entry = setup_loop_entry [OF d mem, of b g self]
  show "case fst (setup_body b (config self) (robot_info_direct_instance self) n cls) of
        Inl e \<Rightarrow>
          map_of (workers (snd (setup_loop b (worker_setups b) (g, self)))) n
            = Some \<lparr>worker = None, thread = None\<rparr>
          \<and> (n @ '' (setup_failed)'' \<in> set (MISSING_MODULES (fst (setup_loop b (worker_setups b) (g, self))))
              \<or> n \<in> set (MISSING_MODULES g))
      | Inr (w, t) \<Rightarrow>
          map_of (workers (snd (setup_loop b (worker_setups b) (g, self)))) n
            = Some \<lparr>worker = Some w,
                    thread = Some \<lparr>objectName = n @ ''Thread'', isRunning = (n \<noteq> ''camera'')\<rparr>\<rparr>"
  proof (cases "fst (setup_body b (config self) (robot_info_direct_instance self) n cls)")
    case (Inl e)
    from mem have n: "n \<in> set (map fst (worker_setups b))" by force
    have no_suffix: "\<not> (\<exists>m\<in>fst ` set (worker_setups b). n = m @ '' (setup_failed)'')"
      using n unfolding worker_setups_names set_map [symmetric] by auto
    from setup_loop_missing_failed [OF mem Inl, of g] no_suffix
    have "n @ '' (setup_failed)'' \<in> set (MISSING_MODULES (fst (setup_loop b (worker_setups b) (g, self))))
          \<or> n \<in> set (MISSING_MODULES g)" by blast
    with entry Inl show ?thesis by simp
  next
    case (Inr wt)
    with entry show ?thesis by (simp split: prod.splits)
  qed
qed

lemma tts_body_fails:
  "fst (setup_body broken_tts_bindings cfg ri ''tts'' (failing_class ''TTSWorker'')) = Inl OtherException"
  by (simp add: setup_body_def construct_worker_def failing_class_def)

lemma image_save_body:
  "fst (setup_body b (VDict []) ri ''image_save'' ImageSaveWorker_cls)
     = Inr (\<lparr>class_name = ''ImageSaveWorker'',
             attrs = [(''image_saved'', Signal), (''save_image'', Slot)] @ worker_attrs\<rparr>,
            \<lparr>objectName = ''image_saveThread'', isRunning = False\<rparr>)"
  by (simp add: setup_body_def construct_worker_def ImageSaveWorker_cls_def local_class_def binds_def
        parent_kw_def Let_def and_then_def move_to_thread_def connect_signal_def hasattr_def
        dict_contains_def worker_attrs_def qobject_attrs_def build_setups_data_def
        original_setups_data_def self_hasattr_def MainWindow_methods_def connect_run_def)

lemma camera_body:
  "fst (setup_body b (VDict []) ri ''camera'' CameraWorker_cls)
     = Inr (\<lparr>class_name = ''CameraWorker'', attrs = camera_attrs\<rparr>,
            \<lparr>objectName = ''cameraThread'', isRunning = False\<rparr>)"
  by (simp add: setup_body_def construct_worker_def CameraWorker_cls_def binds_def bound_arg_def
        py_get_def iterable_def parent_kw_def Let_def and_then_def move_to_thread_def
        connect_signal_def hasattr_def dict_contains_def camera_attrs_def worker_attrs_def
        qobject_attrs_def build_setups_data_def original_setups_data_def self_hasattr_def
        MainWindow_methods_def connect_run_def)

theorem setup_failure_isolated_witness:
  "(''tts'', failing_class ''TTSWorker'') \<in> set (worker_setups broken_tts_bindings)
   \<and> (''image_save'', ImageSaveWorker_cls) \<in> set (worker_setups broken_tts_bindings)
   \<and> map_of (workers (snd (setup_loop broken_tts_bindings (worker_setups broken_tts_bindings)
                               (initial_globals, MainWindow_init)))) ''tts''
       = Some \<lparr>worker = None, thread = None\<rparr>
   \<and> ''tts (setup_failed)''
        \<in> set (MISSING_MODULES (fst (setup_loop broken_tts_bindings (worker_setups broken_tts_bindings)
                                        (initial_globals, MainWindow_init))))
   \<and> map_of (workers (snd (setup_loop broken_tts_bindings (worker_setups broken_tts_bindings)
                               (initial_globals, MainWindow_init)))) ''image_save''
       = Some \<lparr>worker = Some \<lparr>class_name = ''ImageSaveWorker'',
                                attrs = [(''image_saved'', Signal), (''save_image'', Slot)]
                                          @ worker_attrs\<rparr>,
               thread = Some \<lparr>objectName = ''image_saveThread'', isRunning = True\<rparr>\<rparr>"
proof -
  have mem: "(''tts'', failing_class ''TTSWorker'') \<in> set (worker_setups broken_tts_bindings)"
    "(''image_save'', ImageSaveWorker_cls) \<in> set (worker_setups broken_tts_bindings)"
    by (simp_all add: worker_setups_def broken_tts_bindings_def)
  have cfg: "config MainWindow_init = VDict []" "MISSING_MODULES initial_globals = []"
    by (simp_all add: MainWindow_init_def initial_globals_def)
  show ?thesis
    using mem
      setup_failure_isolated [where n = "''tts''" and cls = "failing_class ''TTSWorker''"
        and b = broken_tts_bindings and self = MainWindow_init and g = initial_globals]
      setup_failure_isolated [where n = "''image_save''" and cls = ImageSaveWorker_cls
        and b = broken_tts_bindings and self = MainWindow_init and g = initial_globals]
    by (simp add: cfg tts_body_fails image_save_body)
qed

text \<open>
  C3 as worded fails for the camera: after the setup of \<^verbatim>\<open>tts\<close> raised, the setup of
  \<^verbatim>\<open>camera\<close> still succeeds, and its thread is not running.
\<close>

theorem camera_thread_left_unstarted:
  "map_of (workers (snd (setup_loop broken_tts_bindings (worker_setups broken_tts_bindings)
                            (initial_globals, MainWindow_init)))) ''tts''
     = Some \<lparr>worker = None, thread = None\<rparr>
   \<and> map_of (workers (snd (setup_loop broken_tts_bindings (worker_setups broken_tts_bindings)
                               (initial_globals, MainWindow_init)))) ''camera''
       = Some \<lparr>worker = Some \<lparr>class_name = ''CameraWorker'', attrs = camera_attrs\<rparr>,
               thread = Some \<lparr>objectName = ''cameraThread'', isRunning = False\<rparr>\<rparr>"
proof -
  have d: "distinct (map fst (worker_setups broken_tts_bindings))"
    by (simp add: worker_setups_names)
  have mem: "(''tts'', failing_class ''TTSWorker'') \<in> set (worker_setups broken_tts_bindings)"
    "(''camera'', CameraWorker_cls) \<in> set (worker_setups broken_tts_bindings)"
    by (simp_all add: worker_setups_def broken_tts_bindings_def)
  have cfg: "config MainWindow_init = VDict []"
    by (simp add: MainWindow_init_def)
  show ?thesis
    using setup_loop_entry [OF d mem(1), of broken_tts_bindings initial_globals MainWindow_init]
      setup_loop_entry [OF d mem(2), of broken_tts_bindings initial_globals MainWindow_init]
    by (simp add: cfg tts_body_fails camera_body)
qed

section \<open>Starting up\<close>

lemma no_setup_method: "\<not> self_hasattr ''_setup_workers_and_threads''"
  by (simp add: self_hasattr_def MainWindow_methods_def MainWindow_fields_def)

text \<open>
  C1, evaluated on the source.  \<^verbatim>\<open>_setup_workers_and_threads\<close> is not an attribute of the
  window, so step 8 of \<^verbatim>\<open>_perform_full_initialization\<close> raises \<^verbatim>\<open>AttributeError\<close>, which
  the routine catches: it never ends initialised, and the workers mapping stays as
  \<^verbatim>\<open>__init__\<close> left it, empty, for every configuration and every binding of the classes.
\<close>

theorem initialization_sets_up_no_worker:
  "workers (snd (snd (perform_full_initialization env b (g, MainWindow_init)))) = []
   \<and> fst (perform_full_initialization env b (g, MainWindow_init)) \<noteq> Initialized
   \<and> (early_failure env = None \<and> ui_failure env = None
        \<longrightarrow> fst (perform_full_initialization env b (g, MainWindow_init))
              = Initialization_error AttributeError)"
  by (simp add: perform_full_initialization_def no_setup_method Let_def MainWindow_init_def
           split: option.splits)

theorem initialization_sets_up_no_worker_witness:
  "perform_full_initialization \<lparr>loaded_config = VDict [], early_failure = None, ui_failure = None\<rparr>
       dummy_bindings (initial_globals, MainWindow_init)
     = (Initialization_error AttributeError, initial_globals,
        MainWindow_init\<lparr>robot_info_direct_instance :=
           VObject \<lparr>class_name = ''RobotInfoModule_Dummy'',
                    attrs = [(''dev_info'', Data), (''robot_info'', Data), (''faq_info'', Data),
                             (''get_information'', Callable), (''get_robot_info'', Callable),
                             (''get_developer_info'', Callable), (''log_dummy_call'', Callable)]\<rparr>\<rparr>)"
  using initialization_sets_up_no_worker
    [of "\<lparr>loaded_config = VDict [], early_failure = None, ui_failure = None\<rparr>" dummy_bindings initial_globals]
  by (simp add: perform_full_initialization_def no_setup_method Let_def MainWindow_init_def
        dummy_bindings_def RobotInfoModule_Dummy_def local_class_def binds_def)

end
